theory Spec2Isabelle
  imports Main "HOL-Library.Monad_Syntax"
begin

unbundle bit_operations_syntax

section \<open>Unix domain sockets of the PFS server (servers/pfs/dev\_uds.c)\<close>

text \<open>
  The driver keeps one table of socket descriptors, \<^verbatim>\<open>uds_fd_table[NR_FDS]\<close>, and
  serves open, close, select, read, write and cancel requests on it; a request that
  cannot complete is suspended and retried later by \<^verbatim>\<open>uds_unsuspend\<close>.

  The embedding follows dev\_uds.c function by function. The headers (uds.h, const.h,
  errno.h and the system headers) are not part of the sources at hand, so every
  constant they define is a field of the record \<open>hdr\<close>, a parameter of each function;
  nothing is assumed about the values except where a theorem says so. The collaborators
  of the driver (the pipe file system, the credential lookup) are the record \<open>ext\<close>.
\<close>

subsection \<open>Constants of the headers\<close>

record hdr =
  PIPE_BUF :: int
  SIZE_MAX :: int
  UDS_SOMAXCONN :: nat
  OPEN_MAX :: nat
  UNIX_PATH_MAX :: nat
  AF_UNIX :: int
  SOCK_STREAM :: int
  SOCK_DGRAM :: int
  SOCK_SEQPACKET :: int
  S_IRUSR :: int
  S_IWUSR :: int
  SEL_RD :: int
  SEL_WR :: int
  UDS_FREE :: int
  UDS_INUSE :: int
  UDS_NOT_SUSPENDED :: int
  UDS_SUSPENDED_READ :: int
  UDS_SUSPENDED_WRITE :: int
  UDS_SUSPENDED_CONNECT :: int
  UDS_SUSPENDED_ACCEPT :: int
  OK :: int
  SUSPEND :: int
  ENFILE :: int
  EINVAL :: int
  EPIPE :: int
  ECONNRESET :: int
  ENOTCONN :: int
  EMSGSIZE :: int
  ENOENT :: int
  EINTR :: int
  DEV_IOCTL_S :: int
  NWIOSUDSACCEPT :: int
  NWIOSUDSCONN :: int

subsection \<open>The descriptor table\<close>

text \<open>
  \<^verbatim>\<open>struct sockaddr_un\<close>: the family and the path, an array of \<^verbatim>\<open>UNIX_PATH_MAX\<close>
  characters.
\<close>

record sockaddr_un =
  sun_family :: int
  sun_path :: "char list"

text \<open>\<^verbatim>\<open>struct ancillary\<close>, as far as dev\_uds.c reads and writes it.\<close>

record ancillary =
  fds :: "int list"
  nfiledes :: int

text \<open>
  \<^verbatim>\<open>uds_fd_t\<close>, one slot of the table. The member \<^verbatim>\<open>size\<close>, called \<open>size_f\<close> here, is
  a \<^verbatim>\<open>size_t\<close>: the two places of the code that add to it or subtract from it store
  the result modulo \<^verbatim>\<open>SIZE_MAX + 1\<close> (\<open>to_size_t\<close> below), so that a byte count of the
  backend that is negative or larger than the buffered length wraps around as it does in
  C. \<^verbatim>\<open>io_gr_size\<close> is a \<^verbatim>\<open>size_t\<close> too and is never changed by arithmetic. The other
  integer members are unbounded integers. The member \<^verbatim>\<open>type\<close> is called \<open>type_f\<close>.
\<close>

record uds_fd =
  state :: int
  owner :: int
  endpoint :: int
  inode_nr :: int
  pos :: int
  size_f :: int
  mode :: int
  type_f :: int
  peer :: int
  child :: int
  backlog :: "int list"
  backlog_size :: nat
  listening :: int
  addr :: sockaddr_un
  source :: sockaddr_un
  target :: sockaddr_un
  suspended :: int
  ready_to_revive :: int
  io_gr :: int
  io_gr_size :: nat
  ancillary_data :: ancillary
  err :: int
  call_nr :: int
  ioctl :: int
  syscall_done :: int
  selecting :: int
  select_proc :: int
  sel_ops_in :: int
  sel_ops_out :: int
  status_updated :: int

text \<open>
  The messages the driver builds with \<^verbatim>\<open>uds_set_reply\<close> and \<^verbatim>\<open>uds_sel_reply\<close> (both in
  uds.c) are kept as the arguments of the call that built them; \<open>m_uninit\<close> is a
  message structure that was declared and never filled.
\<close>

datatype reply_type = DEV_OPEN_REPL | DEV_CLOSE_REPL | DEV_REVIVE | DEV_SEL_REPL1 | DEV_SEL_REPL2

datatype out_message =
  m_uninit
  | uds_set_reply reply_type int int int
  | uds_sel_reply reply_type int int

text \<open>
  The request message \<^verbatim>\<open>dev_m_in\<close>. \<open>DEVICE\<close> is what the macro \<^verbatim>\<open>uds_minor\<close> extracts:
  the minor number, an index into the table. \<open>COUNT\<close> is the value after its conversion
  to \<^verbatim>\<open>size_t\<close>.
\<close>

record message =
  m_source :: int
  m_type :: int
  DEVICE :: nat
  USER_ENDPT :: int
  IO_GRANT :: int
  COUNT :: nat
  POSITION :: int

definition uds_minor :: "message \<Rightarrow> nat" where
  "uds_minor dev_m_in = DEVICE dev_m_in"

subsection \<open>The collaborators\<close>

datatype fs_req_type = REQ_READ | REQ_WRITE

record fs_req =
  REQ_TYPE :: fs_req_type
  REQ_INODE_NR :: int
  REQ_GRANT :: int
  REQ_SEEK_POS_HI :: int
  REQ_SEEK_POS_LO :: int
  REQ_NBYTES :: int

text \<open>
  \<open>fs_readwrite E k req\<close> is the answer to the \<open>k\<close>-th transfer request since the start:
  the return code and \<^verbatim>\<open>RES_NBYTES\<close>. \<open>getnucred\<close> answers with its return code, the
  value of \<^verbatim>\<open>errno\<close>, the user and the group; \<open>fs_newnode\<close> takes the user and the group
  and answers with its return code and the inode number; \<open>fs_putnode\<close> takes the inode
  number.
\<close>

record ext =
  getnucred :: "int \<Rightarrow> int \<times> int \<times> int \<times> int"
  fs_newnode :: "int \<Rightarrow> int \<Rightarrow> int \<times> int"
  fs_putnode :: "int \<Rightarrow> int"
  fs_readwrite :: "nat \<Rightarrow> fs_req \<Rightarrow> int \<times> int"

text \<open>
  The state of the driver: the table, the messages handed to \<^verbatim>\<open>reply\<close> so far (with
  their destination, oldest first), and the number of transfer requests made.
\<close>

record uds_state =
  uds_fd_table :: "uds_fd list"
  replies :: "(int \<times> out_message) list"
  fs_calls :: nat

definition NR_FDS :: "uds_state \<Rightarrow> nat" where
  "NR_FDS s = length (uds_fd_table s)"

definition fd :: "uds_state \<Rightarrow> nat \<Rightarrow> uds_fd" where
  "fd s i = uds_fd_table s ! i"

definition fd_upd :: "nat \<Rightarrow> (uds_fd \<Rightarrow> uds_fd) \<Rightarrow> uds_state \<Rightarrow> uds_state" where
  "fd_upd i f s = s\<lparr>uds_fd_table := (uds_fd_table s)[i := f (uds_fd_table s ! i)]\<rparr>"

text \<open>
  The value that a \<^verbatim>\<open>size_t\<close> holds after the integer \<open>x\<close> is stored in it. The sums
  that the code only compares (\<^verbatim>\<open>pos + size + size > PIPE_BUF\<close> of the write) are
  computed exactly: with operands inside the buffer they stay below \<^verbatim>\<open>2 * PIPE_BUF\<close>.
\<close>

definition to_size_t :: "hdr \<Rightarrow> int \<Rightarrow> int" where
  "to_size_t H x = x mod (SIZE_MAX H + 1)"

text \<open>An \<^verbatim>\<open>int\<close> that is used as an index lies inside the table.\<close>

definition in_table :: "uds_state \<Rightarrow> int \<Rightarrow> bool" where
  "in_table s p = (0 \<le> p \<and> nat p < NR_FDS s)"

definition reply :: "int \<Rightarrow> out_message \<Rightarrow> uds_state \<Rightarrow> uds_state" where
  "reply dst m s = s\<lparr>replies := replies s @ [(dst, m)]\<rparr>"

definition call_fs_readwrite :: "ext \<Rightarrow> fs_req \<Rightarrow> uds_state \<Rightarrow> (int \<times> int) \<times> uds_state" where
  "call_fs_readwrite E req s = (fs_readwrite E (fs_calls s) req, s\<lparr>fs_calls := Suc (fs_calls s)\<rparr>)"

text \<open>\<^verbatim>\<open>strncmp(a, b, n) == 0\<close> on two character arrays.\<close>

definition strncmp_eq :: "char list \<Rightarrow> char list \<Rightarrow> nat \<Rightarrow> bool" where
  "strncmp_eq a b n =
     (takeWhile (\<lambda>c. c \<noteq> CHR 0x00) (take n a) = takeWhile (\<lambda>c. c \<noteq> CHR 0x00) (take n b))"

text \<open>
  The loop of \<^verbatim>\<open>uds_perform_write\<close> that locates the receiver of a datagram: the first
  slot of type \<^verbatim>\<open>SOCK_DGRAM\<close> bound to the target address of \<open>minor\<close>, or \<open>-1\<close>.
\<close>

definition dgram_match :: "hdr \<Rightarrow> uds_state \<Rightarrow> nat \<Rightarrow> nat \<Rightarrow> bool" where
  "dgram_match H s minor i =
     (type_f (fd s i) = SOCK_DGRAM H \<and>
      sun_family (addr (fd s i)) = AF_UNIX H \<and>
      strncmp_eq (sun_path (target (fd s minor))) (sun_path (addr (fd s i))) (UNIX_PATH_MAX H))"

definition dgram_peer :: "hdr \<Rightarrow> uds_state \<Rightarrow> nat \<Rightarrow> int" where
  "dgram_peer H s minor =
     (case find (dgram_match H s minor) [0 ..< NR_FDS s] of
        None \<Rightarrow> - 1
      | Some i \<Rightarrow> int i)"

text \<open>
  The receiver that \<^verbatim>\<open>uds_perform_write\<close> settles on: the connected peer of a stream or
  sequential-packet socket, the result of the scan otherwise.
\<close>

definition resolve_peer :: "hdr \<Rightarrow> uds_state \<Rightarrow> nat \<Rightarrow> int" where
  "resolve_peer H s minor =
     (if type_f (fd s minor) = SOCK_STREAM H \<or> type_f (fd s minor) = SOCK_SEQPACKET H
      then peer (fd s minor) else dgram_peer H s minor)"

subsection \<open>Reading, writing and reviving\<close>

text \<open>
  \<^verbatim>\<open>uds_perform_read\<close>, \<^verbatim>\<open>uds_perform_write\<close> and \<^verbatim>\<open>uds_unsuspend\<close> call each other, and
  nothing in the code bounds the depth of the calls. The first argument of the three
  functions bounds it here: \<open>uds_unsuspend\<close> gives up one unit of it. The result \<open>None\<close>
  says that the bound was reached, or that an index read from a \<^verbatim>\<open>peer\<close> member (or
  passed as \<open>minor\<close>) lies outside the table, where the C code has no defined behaviour.
  \<open>Some (r, s')\<close> is the returned \<^verbatim>\<open>int\<close> and the state the call leaves.

  The bodies of the three functions come first, each with the functions it calls as
  arguments (\<open>revive\<close> for \<^verbatim>\<open>uds_unsuspend\<close>, \<open>rd\<close> and \<open>wr\<close> for the two transfer
  functions); the recursion on the bound ties them together below.
\<close>

definition perform_read_body ::
  "(int \<Rightarrow> nat \<Rightarrow> uds_state \<Rightarrow> (int \<times> uds_state) option) \<Rightarrow> hdr \<Rightarrow> ext \<Rightarrow>
   nat \<Rightarrow> int \<Rightarrow> nat \<Rightarrow> bool \<Rightarrow> uds_state \<Rightarrow> (int \<times> uds_state) option" where
  "perform_read_body revive H E minor m_src sz pretend s =
    (if \<not> minor < NR_FDS s then None
     else let peer' = peer (fd s minor) in
     if sz = 0 then Some (0, s)
     else if mode (fd s minor) AND S_IRUSR H = 0 then Some (EPIPE H, s)
     else if size_f (fd s minor) = 0 then
       (if peer' = - 1 \<and>
           (type_f (fd s minor) = SOCK_STREAM H \<or> type_f (fd s minor) = SOCK_SEQPACKET H) then
          (if err (fd s minor) = ECONNRESET H
           then Some (ECONNRESET H, fd_upd minor (\<lambda>f. f\<lparr>err := 0\<rparr>) s)
           else Some (ENOTCONN H, s))
        else if peer' \<noteq> - 1 \<and> \<not> in_table s peer' then None
        else if peer' \<noteq> - 1 \<and> mode (fd s (nat peer')) AND S_IWUSR H = 0 \<and>
                size_f (fd s minor) = 0 then Some (0, s)
        else if pretend then Some (SUSPEND H, s)
        else do {
          s1 \<leftarrow> (if peer' \<noteq> - 1 \<and> suspended (fd s (nat peer')) \<noteq> 0
                then map_option snd
                       (revive m_src (nat peer')
                          (fd_upd (nat peer') (\<lambda>f. f\<lparr>ready_to_revive := 1\<rparr>) s))
                else Some s);
          Some (SUSPEND H, fd_upd minor (\<lambda>f. f\<lparr>suspended := UDS_SUSPENDED_READ H\<rparr>) s1)
        })
     else if pretend then
       Some (if int sz > size_f (fd s minor) then size_f (fd s minor) else int sz, s)
     else
       let req = \<lparr>REQ_TYPE = REQ_READ, REQ_INODE_NR = inode_nr (fd s minor),
                  REQ_GRANT = io_gr (fd s minor), REQ_SEEK_POS_HI = 0,
                  REQ_SEEK_POS_LO = pos (fd s minor),
                  REQ_NBYTES = (if int sz > size_f (fd s minor)
                                then size_f (fd s minor) else int sz)\<rparr>;
           ((rc, nbytes), s0) = call_fs_readwrite E req s
       in
       if rc \<noteq> OK H then Some (rc, s0)
       else if peer' \<noteq> - 1 \<and> \<not> in_table s peer' then None
       else
         let s1 = fd_upd minor (\<lambda>f. f\<lparr>pos := pos f + nbytes\<rparr>) s0;
             s2 = fd_upd minor (\<lambda>f. f\<lparr>size_f := to_size_t H (size_f f - nbytes)\<rparr>) s1;
             s3 = (if size_f (fd s2 minor) = 0
                   then fd_upd minor (\<lambda>f. f\<lparr>pos := 0\<rparr>) s2 else s2)
         in do {
           s4 \<leftarrow> (if peer' \<noteq> - 1 \<and> suspended (fd s3 (nat peer')) \<noteq> 0
                 then map_option snd
                        (revive m_src (nat peer')
                           (fd_upd (nat peer') (\<lambda>f. f\<lparr>ready_to_revive := 1\<rparr>) s3))
                 else Some s3);
           s5 \<leftarrow> (if peer' \<noteq> - 1 \<and> selecting (fd s4 (nat peer')) = 1 \<and>
                    size_f (fd s4 minor) + pos (fd s4 minor) + 1 < PIPE_BUF H
                 then
                   (if peer' \<noteq> - 1 \<and> sel_ops_in (fd s4 (nat peer')) AND SEL_WR H \<noteq> 0 \<and>
                       sel_ops_out (fd s4 (nat peer')) AND SEL_WR H = 0
                    then map_option snd
                           (revive m_src (nat peer')
                              (fd_upd (nat peer')
                                 (\<lambda>f. f\<lparr>sel_ops_out := sel_ops_out f OR SEL_WR H,
                                        status_updated := 1\<rparr>) s4))
                    else Some s4)
                 else Some s4);
           Some (nbytes, s5)
         })"

definition perform_write_body ::
  "(int \<Rightarrow> nat \<Rightarrow> uds_state \<Rightarrow> (int \<times> uds_state) option) \<Rightarrow> hdr \<Rightarrow> ext \<Rightarrow>
   nat \<Rightarrow> int \<Rightarrow> nat \<Rightarrow> bool \<Rightarrow> uds_state \<Rightarrow> (int \<times> uds_state) option" where
  "perform_write_body revive H E minor m_src sz pretend s =
    (if \<not> minor < NR_FDS s then None
     else if sz = 0 then Some (0, s)
     else if mode (fd s minor) AND S_IWUSR H = 0 then Some (EPIPE H, s)
     else if int sz > PIPE_BUF H then Some (EMSGSIZE H, s)
     else if (type_f (fd s minor) = SOCK_STREAM H \<or> type_f (fd s minor) = SOCK_SEQPACKET H) \<and>
             peer (fd s minor) = - 1 then
       (if err (fd s minor) = ECONNRESET H
        then Some (ECONNRESET H, fd_upd minor (\<lambda>f. f\<lparr>err := 0\<rparr>) s)
        else Some (ENOTCONN H, s))
     else
       let peer' = resolve_peer H s minor in
       if peer' = - 1 then (if pretend then Some (SUSPEND H, s) else Some (ENOENT H, s))
       else if \<not> in_table s peer' then None
       else
         let p = nat peer' in
         if mode (fd s p) AND S_IRUSR H = 0 then Some (EPIPE H, s)
         else if type_f (fd s minor) = SOCK_DGRAM H \<and> size_f (fd s p) > 0 then Some (int sz, s)
         else if pos (fd s p) + size_f (fd s p) + int sz > PIPE_BUF H \<or>
                 (type_f (fd s minor) = SOCK_SEQPACKET H \<and> size_f (fd s p) > 0) then
           (if pretend then Some (SUSPEND H, s)
            else do {
              s1 \<leftarrow> (if suspended (fd s p) \<noteq> 0
                    then map_option snd
                           (revive m_src p
                              (fd_upd p (\<lambda>f. f\<lparr>ready_to_revive := 1\<rparr>) s))
                    else Some s);
              Some (SUSPEND H, fd_upd minor (\<lambda>f. f\<lparr>suspended := UDS_SUSPENDED_WRITE H\<rparr>) s1)
            })
         else if pretend then Some (int sz, s)
         else
           let req = \<lparr>REQ_TYPE = REQ_WRITE, REQ_INODE_NR = inode_nr (fd s p),
                      REQ_GRANT = io_gr (fd s minor), REQ_SEEK_POS_HI = 0,
                      REQ_SEEK_POS_LO = pos (fd s p) + size_f (fd s p),
                      REQ_NBYTES = int sz\<rparr>;
               ((rc, nbytes), s0) = call_fs_readwrite E req s
           in
           if rc \<noteq> OK H then Some (rc, s0)
           else
             let s1 = fd_upd p (\<lambda>f. f\<lparr>size_f := to_size_t H (size_f f + nbytes)\<rparr>) s0;
                 s2 = (if type_f (fd s1 minor) = SOCK_DGRAM H
                       then fd_upd p (\<lambda>f. f\<lparr>source := addr (fd s1 minor)\<rparr>) s1 else s1)
             in do {
               s3 \<leftarrow> (if suspended (fd s2 p) \<noteq> 0
                     then map_option snd
                            (revive m_src p
                               (fd_upd p (\<lambda>f. f\<lparr>ready_to_revive := 1\<rparr>) s2))
                     else Some s2);
               s4 \<leftarrow> (if selecting (fd s3 p) = 1 \<and> nbytes > 0
                     then
                       (if sel_ops_in (fd s3 p) AND SEL_RD H \<noteq> 0 \<and>
                           sel_ops_out (fd s3 p) AND SEL_RD H = 0
                        then map_option snd
                               (revive m_src p
                                  (fd_upd p
                                     (\<lambda>f. f\<lparr>sel_ops_out := sel_ops_out f OR SEL_RD H,
                                            status_updated := 1\<rparr>) s3))
                        else Some s3)
                     else Some s3);
               Some (nbytes, s4)
             })"

definition unsuspend_body ::
  "(nat \<Rightarrow> int \<Rightarrow> nat \<Rightarrow> bool \<Rightarrow> uds_state \<Rightarrow> (int \<times> uds_state) option) \<Rightarrow> (nat \<Rightarrow> int \<Rightarrow> nat \<Rightarrow> bool \<Rightarrow> uds_state \<Rightarrow> (int \<times> uds_state) option) \<Rightarrow> hdr \<Rightarrow>
   int \<Rightarrow> nat \<Rightarrow> uds_state \<Rightarrow> (int \<times> uds_state) option" where
  "unsuspend_body rd wr H m_src minor s =
    (if \<not> minor < NR_FDS s then None
     else if status_updated (fd s minor) = 1 then
       let s1 = fd_upd minor (\<lambda>f. f\<lparr>status_updated := 0\<rparr>) s;
           s2 = fd_upd minor (\<lambda>f. f\<lparr>selecting := 0\<rparr>) s1;
           m_out = uds_sel_reply DEV_SEL_REPL2 (int minor) (sel_ops_out (fd s2 minor))
       in Some (OK H, reply m_src m_out s2)
     else if ready_to_revive (fd s minor) = 1 then
       let s1 = fd_upd minor (\<lambda>f. f\<lparr>ready_to_revive := 0\<rparr>) s in
       if suspended (fd s1 minor) = UDS_SUSPENDED_READ H then
         do {
           (bytes, s2) \<leftarrow> rd minor m_src (io_gr_size (fd s1 minor)) False s1;
           if bytes = SUSPEND H then Some (SUSPEND H, s2)
           else
             let s3 = fd_upd minor (\<lambda>f. f\<lparr>suspended := UDS_NOT_SUSPENDED H\<rparr>) s2;
                 m_out = uds_set_reply DEV_REVIVE (endpoint (fd s3 minor)) (io_gr (fd s3 minor)) bytes
             in Some (OK H, reply m_src m_out s3)
         }
       else if suspended (fd s1 minor) = UDS_SUSPENDED_WRITE H then
         do {
           (bytes, s2) \<leftarrow> wr minor m_src (io_gr_size (fd s1 minor)) False s1;
           if bytes = SUSPEND H then Some (SUSPEND H, s2)
           else
             let s3 = fd_upd minor (\<lambda>f. f\<lparr>suspended := UDS_NOT_SUSPENDED H\<rparr>) s2;
                 m_out = uds_set_reply DEV_REVIVE (endpoint (fd s3 minor)) (io_gr (fd s3 minor)) bytes
             in Some (OK H, reply m_src m_out s3)
         }
       else if suspended (fd s1 minor) = UDS_SUSPENDED_CONNECT H \<or>
               suspended (fd s1 minor) = UDS_SUSPENDED_ACCEPT H then
         let s3 = fd_upd minor (\<lambda>f. f\<lparr>suspended := UDS_NOT_SUSPENDED H\<rparr>) s1;
             m_out = uds_set_reply DEV_REVIVE (endpoint (fd s3 minor)) (io_gr (fd s3 minor)) (OK H)
         in Some (OK H, reply m_src m_out s3)
       else Some (OK H, s1)
     else Some (OK H, reply m_src m_uninit s))"

primrec uds_unsuspend ::
  "nat \<Rightarrow> hdr \<Rightarrow> ext \<Rightarrow> int \<Rightarrow> nat \<Rightarrow> uds_state \<Rightarrow> (int \<times> uds_state) option" where
  "uds_unsuspend 0 H E = (\<lambda>m_src minor s. None)"
| "uds_unsuspend (Suc n) H E =
     unsuspend_body (perform_read_body (uds_unsuspend n H E) H E)
                    (perform_write_body (uds_unsuspend n H E) H E) H"

definition uds_perform_read ::
  "nat \<Rightarrow> hdr \<Rightarrow> ext \<Rightarrow> nat \<Rightarrow> int \<Rightarrow> nat \<Rightarrow> bool \<Rightarrow> uds_state \<Rightarrow> (int \<times> uds_state) option" where
  "uds_perform_read n H E = perform_read_body (uds_unsuspend n H E) H E"

definition uds_perform_write ::
  "nat \<Rightarrow> hdr \<Rightarrow> ext \<Rightarrow> nat \<Rightarrow> int \<Rightarrow> nat \<Rightarrow> bool \<Rightarrow> uds_state \<Rightarrow> (int \<times> uds_state) option" where
  "uds_perform_write n H E = perform_write_body (uds_unsuspend n H E) H E"

subsection \<open>Opening and closing\<close>

text \<open>What \<^verbatim>\<open>memset(&uds_fd_table[minor], '\0', sizeof(uds_fd_t))\<close> leaves in a slot.\<close>

definition zero_sockaddr :: "hdr \<Rightarrow> sockaddr_un" where
  "zero_sockaddr H = \<lparr>sun_family = 0, sun_path = replicate (UNIX_PATH_MAX H) (CHR 0x00)\<rparr>"

definition zero_fd :: "hdr \<Rightarrow> uds_fd" where
  "zero_fd H =
     \<lparr>state = 0, owner = 0, endpoint = 0, inode_nr = 0, pos = 0, size_f = 0, mode = 0,
      type_f = 0, peer = 0, child = 0, backlog = replicate (UDS_SOMAXCONN H) 0,
      backlog_size = 0, listening = 0, addr = zero_sockaddr H, source = zero_sockaddr H,
      target = zero_sockaddr H, suspended = 0, ready_to_revive = 0, io_gr = 0,
      io_gr_size = 0,
      ancillary_data = \<lparr>fds = replicate (OPEN_MAX H) 0, nfiledes = 0\<rparr>,
      err = 0, call_nr = 0, ioctl = 0, syscall_done = 0, selecting = 0, select_proc = 0,
      sel_ops_in = 0, sel_ops_out = 0, status_updated = 0\<rparr>"

text \<open>
  \<^verbatim>\<open>uds_open\<close>. The result is the returned \<^verbatim>\<open>int\<close>, the message left in \<^verbatim>\<open>dev_m_out\<close>
  and the new state.
\<close>

definition uds_open :: "hdr \<Rightarrow> ext \<Rightarrow> message \<Rightarrow> uds_state \<Rightarrow> (int \<times> out_message) \<times> uds_state" where
  "uds_open H E dev_m_in s =
    (case find (\<lambda>i. state (fd s i) = UDS_FREE H) [1 ..< NR_FDS s] of
       None \<Rightarrow>
         ((ENFILE H,
           uds_set_reply DEV_OPEN_REPL (USER_ENDPT dev_m_in) (IO_GRANT dev_m_in) (ENFILE H)), s)
     | Some minor \<Rightarrow>
         let s1 = fd_upd minor
                    (\<lambda>f. f\<lparr>state := UDS_INUSE H,
                           call_nr := m_type dev_m_in, ioctl := 0, syscall_done := 0,
                           owner := USER_ENDPT dev_m_in, endpoint := USER_ENDPT dev_m_in,
                           selecting := 0, select_proc := 0, sel_ops_in := 0,
                           sel_ops_out := 0, status_updated := 0,
                           pos := 0, size_f := 0,
                           mode := S_IRUSR H OR S_IWUSR H,
                           type_f := - 1,
                           backlog := replicate (UDS_SOMAXCONN H) (- 1),
                           ancillary_data :=
                             \<lparr>fds = replicate (OPEN_MAX H) (- 1), nfiledes = 0\<rparr>,
                           backlog_size := UDS_SOMAXCONN H,
                           listening := 0, peer := - 1, child := - 1,
                           addr := zero_sockaddr H, source := zero_sockaddr H,
                           target := zero_sockaddr H,
                           suspended := UDS_NOT_SUSPENDED H,
                           io_gr := 0, io_gr_size := 0, ready_to_revive := 0\<rparr>) s;
             (rc, errno, uid, gid) = getnucred E (endpoint (fd s1 minor))
         in
         if rc = - 1 then
           ((errno, uds_set_reply DEV_OPEN_REPL (USER_ENDPT dev_m_in) (IO_GRANT dev_m_in) errno),
            fd_upd minor (\<lambda>f. zero_fd H) s1)
         else
           let (rc', ino) = fs_newnode E uid gid in
           if rc' \<noteq> OK H then
             ((rc', uds_set_reply DEV_OPEN_REPL (USER_ENDPT dev_m_in) (IO_GRANT dev_m_in) rc'),
              fd_upd minor (\<lambda>f. zero_fd H) s1)
           else
             let s2 = fd_upd minor (\<lambda>f. f\<lparr>inode_nr := ino\<rparr>) s1;
                 s3 = fd_upd minor (\<lambda>f. f\<lparr>syscall_done := 1\<rparr>) s2
             in ((int minor,
                  uds_set_reply DEV_OPEN_REPL (USER_ENDPT dev_m_in) (IO_GRANT dev_m_in)
                    (int minor)), s3))"

text \<open>
  Modelled from the spec: \<^verbatim>\<open>clear_fds\<close> is defined in uds.c, which is not among the
  sources. The specification says of it that close "releases ancillary handles": the
  handles of the slot are forgotten. Its requests to the file server are no part of the
  table.
\<close>

definition clear_fds :: "nat \<Rightarrow> uds_state \<Rightarrow> uds_state" where
  "clear_fds minor s =
     fd_upd minor
       (\<lambda>f. f\<lparr>ancillary_data :=
                \<lparr>fds = replicate (length (fds (ancillary_data f))) (- 1), nfiledes = 0\<rparr>\<rparr>) s"

text \<open>
  \<^verbatim>\<open>uds_close\<close>. The message is \<open>None\<close> where the function returns without filling
  \<^verbatim>\<open>dev_m_out\<close>.
\<close>

definition uds_close ::
  "nat \<Rightarrow> hdr \<Rightarrow> ext \<Rightarrow> message \<Rightarrow> uds_state \<Rightarrow> ((int \<times> out_message option) \<times> uds_state) option" where
  "uds_close n H E dev_m_in s =
    (let minor = uds_minor dev_m_in in
     if \<not> minor < NR_FDS s then None
     else if state (fd s minor) \<noteq> UDS_INUSE H then
       Some ((EINVAL H,
              Some (uds_set_reply DEV_CLOSE_REPL (USER_ENDPT dev_m_in) (IO_GRANT dev_m_in)
                      (EINVAL H))), s)
     else do {
       s1 \<leftarrow> (if peer (fd s minor) \<noteq> - 1 then
               let peer' = peer (fd s minor) in
               if \<not> in_table s peer' then None
               else
                 let p = nat peer';
                     sa = fd_upd p (\<lambda>f. f\<lparr>peer := - 1\<rparr>) s;
                     sb = fd_upd p (\<lambda>f. f\<lparr>err := ECONNRESET H\<rparr>) sa
                 in
                 if suspended (fd sb p) \<noteq> 0
                 then map_option snd
                        (uds_unsuspend n H E (m_source dev_m_in) p
                           (fd_upd p (\<lambda>f. f\<lparr>ready_to_revive := 1\<rparr>) sb))
                 else Some sb
             else Some s);
       let s2 = (if nfiledes (ancillary_data (fd s1 minor)) > 0
                 then clear_fds minor s1 else s1);
           ino = inode_nr (fd s2 minor);
           s3 = fd_upd minor (\<lambda>f. zero_fd H) s2;
           rc = fs_putnode E ino
       in
       if rc \<noteq> OK H then Some ((rc, None), s3)
       else Some ((OK H,
                   Some (uds_set_reply DEV_CLOSE_REPL (USER_ENDPT dev_m_in)
                           (IO_GRANT dev_m_in) (OK H))), s3)
     })"

subsection \<open>Select, read and write\<close>

definition uds_select ::
  "nat \<Rightarrow> hdr \<Rightarrow> ext \<Rightarrow> message \<Rightarrow> uds_state \<Rightarrow> ((int \<times> out_message option) \<times> uds_state) option" where
  "uds_select n H E dev_m_in s =
    (let minor = uds_minor dev_m_in in
     if \<not> minor < NR_FDS s then None
     else if state (fd s minor) \<noteq> UDS_INUSE H then
       Some ((EINVAL H, Some (uds_sel_reply DEV_SEL_REPL1 (int minor) (EINVAL H))), s)
     else
       let s1 = fd_upd minor
                  (\<lambda>f. f\<lparr>selecting := 1, select_proc := m_source dev_m_in,
                         call_nr := m_type dev_m_in, ioctl := 0, syscall_done := 0,
                         sel_ops_in := USER_ENDPT dev_m_in, sel_ops_out := 0\<rparr>) s
       in do {
         (bytes, s2) \<leftarrow> uds_perform_read n H E minor (m_source dev_m_in) 1 True s1;
         s3 \<leftarrow> (if bytes > 0 then
                 Some (fd_upd minor (\<lambda>f. f\<lparr>sel_ops_out := sel_ops_out f OR SEL_RD H\<rparr>) s2)
               else if listening (fd s2 minor) = 1 then
                 (if list_ex (\<lambda>b. b \<noteq> - 1)
                       (take (backlog_size (fd s2 minor)) (backlog (fd s2 minor)))
                  then Some (fd_upd minor (\<lambda>f. f\<lparr>sel_ops_out := sel_ops_out f OR SEL_RD H\<rparr>) s2)
                  else if backlog_size (fd s2 minor) > length (backlog (fd s2 minor))
                  then None
                  else Some s2)
               else if bytes \<noteq> SUSPEND H then
                 Some (fd_upd minor (\<lambda>f. f\<lparr>sel_ops_out := sel_ops_out f OR SEL_RD H\<rparr>) s2)
               else Some s2);
         (bytes', s4) \<leftarrow>
            uds_perform_write n H E minor (m_source dev_m_in) (nat (PIPE_BUF H)) True s3;
         let s5 = (if bytes' \<noteq> 0 \<and> bytes' \<noteq> SUSPEND H
                   then fd_upd minor (\<lambda>f. f\<lparr>sel_ops_out := sel_ops_out f OR SEL_WR H\<rparr>) s4
                   else s4);
             s6 = fd_upd minor (\<lambda>f. f\<lparr>syscall_done := 1\<rparr>) s5
         in Some ((sel_ops_out (fd s6 minor),
                   Some (uds_sel_reply DEV_SEL_REPL1 (int minor) (sel_ops_out (fd s6 minor)))),
                  s6)
       })"

definition uds_read ::
  "nat \<Rightarrow> hdr \<Rightarrow> ext \<Rightarrow> message \<Rightarrow> uds_state \<Rightarrow> ((int \<times> out_message option) \<times> uds_state) option" where
  "uds_read n H E dev_m_in s =
    (let minor = uds_minor dev_m_in in
     if \<not> minor < NR_FDS s then None
     else if state (fd s minor) \<noteq> UDS_INUSE H then
       Some ((EINVAL H,
              Some (uds_set_reply DEV_REVIVE (USER_ENDPT dev_m_in) (IO_GRANT dev_m_in)
                      (EINVAL H))), s)
     else
       let s1 = fd_upd minor
                  (\<lambda>f. f\<lparr>call_nr := m_type dev_m_in, ioctl := 0, syscall_done := 0,
                         endpoint := USER_ENDPT dev_m_in, selecting := 0,
                         io_gr := IO_GRANT dev_m_in, io_gr_size := COUNT dev_m_in\<rparr>) s
       in do {
         (bytes, s2) \<leftarrow>
            uds_perform_read n H E minor (m_source dev_m_in) (io_gr_size (fd s1 minor)) False s1;
         Some ((bytes,
                Some (uds_set_reply DEV_REVIVE (endpoint (fd s2 minor)) (io_gr (fd s2 minor))
                        bytes)), s2)
       })"

definition uds_write ::
  "nat \<Rightarrow> hdr \<Rightarrow> ext \<Rightarrow> message \<Rightarrow> uds_state \<Rightarrow> ((int \<times> out_message option) \<times> uds_state) option" where
  "uds_write n H E dev_m_in s =
    (let minor = uds_minor dev_m_in in
     if \<not> minor < NR_FDS s then None
     else if state (fd s minor) \<noteq> UDS_INUSE H then
       Some ((EINVAL H,
              Some (uds_set_reply DEV_REVIVE (USER_ENDPT dev_m_in) (IO_GRANT dev_m_in)
                      (EINVAL H))), s)
     else
       let s1 = fd_upd minor
                  (\<lambda>f. f\<lparr>call_nr := m_type dev_m_in, ioctl := 0, syscall_done := 0,
                         endpoint := USER_ENDPT dev_m_in, selecting := 0,
                         io_gr := IO_GRANT dev_m_in, io_gr_size := COUNT dev_m_in\<rparr>) s
       in do {
         (bytes, s2) \<leftarrow>
            uds_perform_write n H E minor (m_source dev_m_in) (io_gr_size (fd s1 minor)) False s1;
         Some ((bytes,
                Some (uds_set_reply DEV_REVIVE (endpoint (fd s2 minor)) (io_gr (fd s2 minor))
                        bytes)), s2)
       })"

subsection \<open>Cancelling\<close>

text \<open>
  The two roll-back loops of \<^verbatim>\<open>uds_cancel\<close>. Each iteration reads and writes slot \<open>i\<close>
  only, so the loop over the table is a \<open>map\<close>. The inner loop of the second one runs
  over the first \<^verbatim>\<open>backlog_size\<close> entries of the backlog.
\<close>

definition cancel_accept :: "nat \<Rightarrow> uds_state \<Rightarrow> uds_state" where
  "cancel_accept minor s =
     s\<lparr>uds_fd_table :=
         map (\<lambda>f. if child f = int minor then f\<lparr>child := - 1\<rparr> else f) (uds_fd_table s)\<rparr>"

definition cancel_connect :: "hdr \<Rightarrow> nat \<Rightarrow> uds_state \<Rightarrow> uds_state option" where
  "cancel_connect H minor s =
     (if list_ex (\<lambda>f. state f = UDS_INUSE H \<and> backlog_size f > length (backlog f))
           (uds_fd_table s)
      then None
      else
        let s1 = s\<lparr>uds_fd_table :=
                     map (\<lambda>f. if state f = UDS_INUSE H
                              then f\<lparr>backlog :=
                                      map (\<lambda>b. if b = int minor then - 1 else b)
                                          (take (backlog_size f) (backlog f))
                                      @ drop (backlog_size f) (backlog f)\<rparr>
                              else f) (uds_fd_table s)\<rparr>
        in Some (fd_upd minor (\<lambda>f. f\<lparr>addr := zero_sockaddr H\<rparr>) s1))"

definition uds_cancel ::
  "hdr \<Rightarrow> message \<Rightarrow> uds_state \<Rightarrow> ((int \<times> out_message option) \<times> uds_state) option" where
  "uds_cancel H dev_m_in s =
    (let minor = uds_minor dev_m_in in
     if \<not> minor < NR_FDS s then None
     else if state (fd s minor) \<noteq> UDS_INUSE H then Some ((SUSPEND H, None), s)
     else
       let s1 = fd_upd minor (\<lambda>f. f\<lparr>endpoint := USER_ENDPT dev_m_in\<rparr>) s;
           s2 = fd_upd minor (\<lambda>f. f\<lparr>selecting := 0\<rparr>) s1;
           s3 = fd_upd minor (\<lambda>f. f\<lparr>suspended := UDS_NOT_SUSPENDED H\<rparr>) s2
       in do {
         s5 \<leftarrow> (if call_nr (fd s3 minor) \<noteq> 0 \<and> syscall_done (fd s3 minor) = 0 then
                 do {
                   s4 \<leftarrow> (if call_nr (fd s3 minor) = DEV_IOCTL_S H then
                           (if ioctl (fd s3 minor) = NWIOSUDSACCEPT H
                            then Some (cancel_accept minor s3)
                            else if ioctl (fd s3 minor) = NWIOSUDSCONN H
                            then cancel_connect H minor s3
                            else Some s3)
                         else Some s3);
                   Some (fd_upd minor (\<lambda>f. f\<lparr>syscall_done := 1\<rparr>) s4)
                 }
               else Some s3);
         Some ((EINTR H,
                Some (uds_set_reply DEV_REVIVE (USER_ENDPT dev_m_in) (IO_GRANT dev_m_in)
                        (EINTR H))), s5)
       })"

subsection \<open>The operations on the table\<close>

datatype uds_op =
  Op_open message
  | Op_close message
  | Op_read message
  | Op_write message
  | Op_select message
  | Op_revive int nat
  | Op_cancel message

fun run_op :: "nat \<Rightarrow> hdr \<Rightarrow> ext \<Rightarrow> uds_op \<Rightarrow> uds_state \<Rightarrow> uds_state option" where
  "run_op n H E (Op_open m) s = Some (snd (uds_open H E m s))"
| "run_op n H E (Op_close m) s = map_option snd (uds_close n H E m s)"
| "run_op n H E (Op_read m) s = map_option snd (uds_read n H E m s)"
| "run_op n H E (Op_write m) s = map_option snd (uds_write n H E m s)"
| "run_op n H E (Op_select m) s = map_option snd (uds_select n H E m s)"
| "run_op n H E (Op_revive m_src minor) s = map_option snd (uds_unsuspend n H E m_src minor s)"
| "run_op n H E (Op_cancel m) s = map_option snd (uds_cancel H m s)"

subsection \<open>A small instance\<close>

text \<open>
  One valuation of the constants, one set of collaborators and a few descriptors, on
  which the functions are run below. The transfer function of \<open>ext_example\<close> moves
  every byte it is asked to move.
\<close>

definition hdr_example :: hdr where
  "hdr_example =
     \<lparr>PIPE_BUF = 16, SIZE_MAX = 4294967295, UDS_SOMAXCONN = 2, OPEN_MAX = 2, UNIX_PATH_MAX = 4, AF_UNIX = 1,
      SOCK_STREAM = 1, SOCK_DGRAM = 2, SOCK_SEQPACKET = 5, S_IRUSR = 256, S_IWUSR = 128,
      SEL_RD = 1, SEL_WR = 2, UDS_FREE = 0, UDS_INUSE = 1, UDS_NOT_SUSPENDED = 0,
      UDS_SUSPENDED_READ = 1, UDS_SUSPENDED_WRITE = 2, UDS_SUSPENDED_CONNECT = 4,
      UDS_SUSPENDED_ACCEPT = 8, OK = 0, SUSPEND = - 998, ENFILE = - 23, EINVAL = - 22,
      EPIPE = - 32, ECONNRESET = - 54, ENOTCONN = - 57, EMSGSIZE = - 40, ENOENT = - 2,
      EINTR = - 4, DEV_IOCTL_S = 24, NWIOSUDSACCEPT = 66, NWIOSUDSCONN = 67\<rparr>"

definition ext_example :: ext where
  "ext_example =
     \<lparr>getnucred = (\<lambda>e. (0, 0, 0, 0)), fs_newnode = (\<lambda>u g. (0, 7)), fs_putnode = (\<lambda>i. 0),
      fs_readwrite = (\<lambda>k req. (0, REQ_NBYTES req))\<rparr>"

text \<open>
  A backend that moves every byte of a request for a number of bytes that is not
  negative, and refuses any other request.
\<close>

definition ext_checked_example :: ext where
  "ext_checked_example =
     \<lparr>getnucred = (\<lambda>e. (0, 0, 0, 0)), fs_newnode = (\<lambda>u g. (0, 7)), fs_putnode = (\<lambda>i. 0),
      fs_readwrite = (\<lambda>k req. if REQ_NBYTES req < 0 then (- 22, 0) else (0, REQ_NBYTES req))\<rparr>"

text \<open>A backend that reports success and six bytes fewer than it was asked to move.\<close>

definition ext_short_example :: ext where
  "ext_short_example =
     \<lparr>getnucred = (\<lambda>e. (0, 0, 0, 0)), fs_newnode = (\<lambda>u g. (0, 7)), fs_putnode = (\<lambda>i. 0),
      fs_readwrite = (\<lambda>k req. (0, REQ_NBYTES req - 6))\<rparr>"


text \<open>A slot as \<^verbatim>\<open>uds_open\<close> leaves it, with the given type, peer and buffer length.\<close>

definition fd_example :: "int \<Rightarrow> int \<Rightarrow> int \<Rightarrow> uds_fd" where
  "fd_example ty pr sz =
     (zero_fd hdr_example)
       \<lparr>state := 1, mode := 384, type_f := ty, peer := pr, child := - 1, size_f := sz,
        backlog := [- 1, - 1], backlog_size := 2, call_nr := 20, syscall_done := 1\<rparr>"

definition state_example :: "uds_fd list \<Rightarrow> uds_state" where
  "state_example t = \<lparr>uds_fd_table = t, replies = [], fs_calls = 0\<rparr>"

definition msg_example :: "nat \<Rightarrow> nat \<Rightarrow> message" where
  "msg_example minor cnt =
     \<lparr>m_source = 1, m_type = 20, DEVICE = minor, USER_ENDPT = 100, IO_GRANT = 3, COUNT = cnt,
      POSITION = 0\<rparr>"

text \<open>
  A stream socket without a peer that holds a latched \<^verbatim>\<open>ECONNRESET\<close>, the same socket
  after the latch was read, and a socket that is shut down in both directions.
\<close>

definition latched_example :: uds_state where
  "latched_example = state_example [zero_fd hdr_example, (fd_example 1 (- 1) 0)\<lparr>err := - 54\<rparr>]"

definition unlatched_example :: uds_state where
  "unlatched_example = state_example [zero_fd hdr_example, (fd_example 1 (- 1) 0)\<lparr>err := 0\<rparr>]"

definition shut_example :: uds_state where
  "shut_example = state_example [zero_fd hdr_example, (fd_example 1 (- 1) 0)\<lparr>mode := 0\<rparr>]"

text \<open>
  A datagram socket in slot 1 that sends to the address \<open>a\<close>; in \<open>dgram_example\<close> the
  socket in slot 2 is bound to that address and holds three unread bytes, in
  \<open>dgram_alone_example\<close> no socket is bound to it.
\<close>

definition path_a :: "char list" where
  "path_a = [CHR ''a'', CHR 0x00, CHR 0x00, CHR 0x00]"

definition dgram_example :: uds_state where
  "dgram_example =
     state_example
       [zero_fd hdr_example,
        (fd_example 2 (- 1) 0)\<lparr>target := \<lparr>sun_family = 1, sun_path = path_a\<rparr>\<rparr>,
        (fd_example 2 (- 1) 3)\<lparr>addr := \<lparr>sun_family = 1, sun_path = path_a\<rparr>\<rparr>]"


text \<open>
  Slot 1 is interrupted in an \<^verbatim>\<open>accept\<close> that has not completed; slot 2 names it as
  its child.
\<close>

definition accept_example :: uds_state where
  "accept_example =
     state_example
       [zero_fd hdr_example,
        (fd_example 1 (- 1) 0)\<lparr>call_nr := 24, ioctl := 66, syscall_done := 0, suspended := 8,
                               selecting := 1\<rparr>,
        (fd_example 1 (- 1) 0)\<lparr>child := 1\<rparr>]"

subsection \<open>Relations between the state before and after a call\<close>

text \<open>
  \<open>same_links\<close>: the table has kept its length, and every slot its peer and its inode.
  \<open>window_ok H f\<close>: the window of the slot lies inside the buffer,
  \<^verbatim>\<open>pos + size <= PIPE_BUF\<close>, with \<^verbatim>\<open>size\<close> a value of its type (not negative).
  \<open>keeps_window H\<close>: the table has kept its length, and every slot whose window lay
  inside the buffer still has it there.
  \<open>transfers_at_most H E\<close>: a transfer that succeeds moves a number of bytes that is
  not negative and at most the number it was asked to move.
\<close>

definition same_links :: "uds_state \<Rightarrow> uds_state \<Rightarrow> bool" where
  "same_links s s' =
     (NR_FDS s' = NR_FDS s \<and>
      (\<forall>i. peer (fd s' i) = peer (fd s i) \<and> inode_nr (fd s' i) = inode_nr (fd s i)))"

definition window_ok :: "hdr \<Rightarrow> uds_fd \<Rightarrow> bool" where
  "window_ok H f = (0 \<le> size_f f \<and> pos f + size_f f \<le> PIPE_BUF H)"

definition keeps_window :: "hdr \<Rightarrow> uds_state \<Rightarrow> uds_state \<Rightarrow> bool" where
  "keeps_window H s s' =
     (NR_FDS s' = NR_FDS s \<and> (\<forall>i < NR_FDS s. window_ok H (fd s i) \<longrightarrow> window_ok H (fd s' i)))"

definition transfers_at_most :: "hdr \<Rightarrow> ext \<Rightarrow> bool" where
  "transfers_at_most H E =
     (\<forall>k req. fst (fs_readwrite E k req) = OK H \<longrightarrow>
        0 \<le> snd (fs_readwrite E k req) \<and> snd (fs_readwrite E k req) \<le> REQ_NBYTES req)"

text \<open>
  \<open>post R s x\<close>: if the call with result \<open>x\<close>, started in \<open>s\<close>, returns, the states before
  and after it are related by \<open>R\<close>; \<open>post_st\<close> is the same for a result that is a state
  only.
\<close>

definition post :: "(uds_state \<Rightarrow> uds_state \<Rightarrow> bool) \<Rightarrow> uds_state \<Rightarrow> ('a \<times> uds_state) option \<Rightarrow> bool" where
  "post R s x = (\<forall>r s'. x = Some (r, s') \<longrightarrow> R s s')"

definition post_st :: "(uds_state \<Rightarrow> uds_state \<Rightarrow> bool) \<Rightarrow> uds_state \<Rightarrow> uds_state option \<Rightarrow> bool" where
  "post_st R s x = (\<forall>s'. x = Some s' \<longrightarrow> R s s')"

text \<open>
  Two connected stream sockets: slot 1 has an empty buffer, slot 2 holds three unread
  bytes.
\<close>

definition pair_example :: uds_state where
  "pair_example =
     state_example [zero_fd hdr_example, fd_example 1 2 0, fd_example 1 1 3]"


text \<open>
  The connected pair with slot 2 suspended in a read of its empty buffer, on behalf of
  endpoint 77; and a backend whose release of an inode fails.
\<close>

definition close_example :: uds_state where
  "close_example =
     state_example
       [zero_fd hdr_example, fd_example 1 2 0,
        (fd_example 1 1 0)\<lparr>suspended := 1, io_gr_size := 4, endpoint := 77\<rparr>]"

definition ext_fail_example :: ext where
  "ext_fail_example =
     \<lparr>getnucred = (\<lambda>e. (0, 0, 0, 0)), fs_newnode = (\<lambda>u g. (0, 7)), fs_putnode = (\<lambda>i. - 5),
      fs_readwrite = (\<lambda>k req. (0, REQ_NBYTES req))\<rparr>"

section \<open>Properties\<close>

subsection \<open>Reading and updating the table\<close>

lemma NR_FDS_fd_upd [simp]: "NR_FDS (fd_upd i f s) = NR_FDS s"
  by (simp add: NR_FDS_def fd_upd_def)

lemma fd_fd_upd: "fd (fd_upd i f s) j = (if i = j \<and> i < NR_FDS s then f (fd s i) else fd s j)"
  by (cases "i < length (uds_fd_table s)")
     (auto simp: NR_FDS_def fd_upd_def fd_def list_update_beyond not_less)

lemma fd_fd_upd_same [simp]: "i < NR_FDS s \<Longrightarrow> fd (fd_upd i f s) i = f (fd s i)"
  by (simp add: fd_fd_upd)

lemma fd_fd_upd_other [simp]: "i \<noteq> j \<Longrightarrow> fd (fd_upd i f s) j = fd s j"
  by (simp add: fd_fd_upd)

lemma replies_fd_upd [simp]: "replies (fd_upd i f s) = replies s"
  by (simp add: fd_upd_def)

lemma fs_calls_fd_upd [simp]: "fs_calls (fd_upd i f s) = fs_calls s"
  by (simp add: fd_upd_def)

lemma in_table_fd_upd [simp]: "in_table (fd_upd i f s) p = in_table s p"
  by (simp add: in_table_def)

lemma in_table_int [simp]: "in_table s (int p) = (p < NR_FDS s)"
  by (simp add: in_table_def)

lemma not_in_table_neg [simp]: "\<not> in_table s (- 1)"
  by (simp add: in_table_def)

lemmas ex_defs = NR_FDS_def fd_def fd_upd_def state_example_def fd_example_def hdr_example_def
  zero_fd_def zero_sockaddr_def ext_example_def in_table_def Let_def

lemmas body_defs = uds_perform_read_def uds_perform_write_def perform_read_body_def
  perform_write_body_def

subsection \<open>The scan for the receiver of a datagram\<close>

lemma dgram_peer_cases:
  "(dgram_peer H s minor = - 1 \<and> (\<forall>i < NR_FDS s. \<not> dgram_match H s minor i)) \<or>
   (\<exists>p < NR_FDS s. dgram_peer H s minor = int p \<and> dgram_match H s minor p \<and>
        (\<forall>j < p. \<not> dgram_match H s minor j))"
proof (cases "find (dgram_match H s minor) [0 ..< NR_FDS s]")
  case None
  then have "dgram_peer H s minor = - 1" by (simp add: dgram_peer_def)
  moreover from None have "\<forall>i < NR_FDS s. \<not> dgram_match H s minor i"
    by (auto simp: find_None_iff)
  ultimately show ?thesis by blast
next
  case (Some p)
  then obtain i where i: "i < NR_FDS s" "dgram_match H s minor ([0 ..< NR_FDS s] ! i)"
      "p = [0 ..< NR_FDS s] ! i" "\<forall>j < i. \<not> dgram_match H s minor ([0 ..< NR_FDS s] ! j)"
    by (auto simp: find_Some_iff)
  then have "p < NR_FDS s" "dgram_match H s minor p" "\<forall>j < p. \<not> dgram_match H s minor j"
    by auto
  with Some show ?thesis by (auto simp: dgram_peer_def)
qed

subsection \<open>Probing\<close>

lemma probe_read:
  "perform_read_body rv H E minor m_src sz True s = Some (r, s') \<Longrightarrow>
   s' = s \<or> (peer (fd s minor) = - 1 \<and> s' = fd_upd minor (\<lambda>f. f\<lparr>err := 0\<rparr>) s)"
  by (auto simp: perform_read_body_def Let_def split: if_splits)

lemma probe_write:
  "perform_write_body rv H E minor m_src sz True s = Some (r, s') \<Longrightarrow>
   s' = s \<or> (resolve_peer H s minor = - 1 \<and> s' = fd_upd minor (\<lambda>f. f\<lparr>err := 0\<rparr>) s)"
  by (auto simp: perform_write_body_def resolve_peer_def Let_def split: if_splits)

lemma probe_read_fuel:
  "perform_read_body rv H E minor m_src sz True s = perform_read_body rv' H E minor m_src' sz True s"
  by (auto simp: perform_read_body_def Let_def)

lemma probe_write_fuel:
  "perform_write_body rv H E minor m_src sz True s = perform_write_body rv' H E minor m_src' sz True s"
  by (auto simp: perform_write_body_def Let_def)

text \<open>
  C2: a read or a write in probe mode (\<^verbatim>\<open>pretend = 1\<close>), for every descriptor and every
  requested size, leaves \<^verbatim>\<open>pos\<close>, \<^verbatim>\<open>size\<close> and \<^verbatim>\<open>suspended\<close> of every descriptor as they
  were and changes no member of the peer it resolves. It changes no descriptor other
  than its own, sends no reply and asks for no transfer; and its result does not depend
  on the bound on the depth of the calls, since a probe revives nobody.
\<close>

theorem probe_mode_frame:
  "(uds_perform_read n H E minor m_src sz True s = Some (r, s') \<longrightarrow>
      NR_FDS s' = NR_FDS s \<and> replies s' = replies s \<and> fs_calls s' = fs_calls s \<and>
      (\<forall>i. pos (fd s' i) = pos (fd s i) \<and> size_f (fd s' i) = size_f (fd s i) \<and>
           suspended (fd s' i) = suspended (fd s i)) \<and>
      (\<forall>i. i \<noteq> minor \<longrightarrow> fd s' i = fd s i) \<and>
      (\<forall>p. peer (fd s minor) = int p \<longrightarrow> fd s' p = fd s p)) \<and>
   (uds_perform_write n H E minor m_src sz True s = Some (r, s') \<longrightarrow>
      NR_FDS s' = NR_FDS s \<and> replies s' = replies s \<and> fs_calls s' = fs_calls s \<and>
      (\<forall>i. pos (fd s' i) = pos (fd s i) \<and> size_f (fd s' i) = size_f (fd s i) \<and>
           suspended (fd s' i) = suspended (fd s i)) \<and>
      (\<forall>i. i \<noteq> minor \<longrightarrow> fd s' i = fd s i) \<and>
      (\<forall>p. resolve_peer H s minor = int p \<longrightarrow> fd s' p = fd s p)) \<and>
   uds_perform_read n H E minor m_src sz True s = uds_perform_read 0 H E minor m_src sz True s \<and>
   uds_perform_write n H E minor m_src sz True s = uds_perform_write 0 H E minor m_src sz True s"
proof -
  have rd: "uds_perform_read n H E minor m_src sz True s = Some (r, s') \<Longrightarrow>
      s' = s \<or> (peer (fd s minor) = - 1 \<and> s' = fd_upd minor (\<lambda>f. f\<lparr>err := 0\<rparr>) s)"
    unfolding uds_perform_read_def by (rule probe_read)
  have wr: "uds_perform_write n H E minor m_src sz True s = Some (r, s') \<Longrightarrow>
      s' = s \<or> (resolve_peer H s minor = - 1 \<and> s' = fd_upd minor (\<lambda>f. f\<lparr>err := 0\<rparr>) s)"
    unfolding uds_perform_write_def by (rule probe_write)
  have a: "uds_perform_read n H E minor m_src sz True s = uds_perform_read 0 H E minor m_src sz True s"
    unfolding uds_perform_read_def by (rule probe_read_fuel)
  have b: "uds_perform_write n H E minor m_src sz True s = uds_perform_write 0 H E minor m_src sz True s"
    unfolding uds_perform_write_def by (rule probe_write_fuel)
  show ?thesis using rd wr a b by (auto simp: fd_fd_upd)
qed

text \<open>
  On the socket with the latched error, a probing read and a probing write of three
  bytes both return \<^verbatim>\<open>ECONNRESET\<close> and clear the latch; position, length and suspension
  of the socket and the whole of slot 0 stay as they were.
\<close>

theorem probe_mode_frame_witness:
  "uds_perform_read 3 hdr_example ext_example 1 1 3 True latched_example
     = Some (- 54, unlatched_example) \<and>
   uds_perform_write 3 hdr_example ext_example 1 1 3 True latched_example
     = Some (- 54, unlatched_example) \<and>
   pos (fd unlatched_example 1) = pos (fd latched_example 1) \<and>
   size_f (fd unlatched_example 1) = size_f (fd latched_example 1) \<and>
   suspended (fd unlatched_example 1) = suspended (fd latched_example 1) \<and>
   fd unlatched_example 0 = fd latched_example 0 \<and>
   replies unlatched_example = replies latched_example"
proof -
  have rd: "uds_perform_read 3 hdr_example ext_example 1 1 3 True latched_example
     = Some (- 54, unlatched_example)"
    by (simp add: body_defs latched_example_def unlatched_example_def ex_defs)
  have wr: "uds_perform_write 3 hdr_example ext_example 1 1 3 True latched_example
     = Some (- 54, unlatched_example)"
    by (simp add: body_defs latched_example_def unlatched_example_def ex_defs)
  from probe_mode_frame[of 3 hdr_example ext_example 1 1 3 latched_example "- 54" unlatched_example]
    rd wr
  show ?thesis by simp
qed

subsection \<open>A datagram for a receiver that still holds one\<close>

text \<open>
  C3: a write on a datagram socket whose receiver (the peer the scan resolves) holds
  unread data returns the requested size, probing or not, and changes nothing: no
  descriptor, no reply, no transfer request, so the receiver's \<^verbatim>\<open>pos\<close>, \<^verbatim>\<open>size\<close> and
  buffered bytes are what they were. The writer is enabled for writing, the size is
  positive and at most \<^verbatim>\<open>PIPE_BUF\<close>, the receiver is enabled for reading.
\<close>

theorem dgram_drop:
  assumes "minor < NR_FDS s" and "type_f (fd s minor) = SOCK_DGRAM H"
    and "SOCK_DGRAM H \<noteq> SOCK_STREAM H" and "SOCK_DGRAM H \<noteq> SOCK_SEQPACKET H"
    and "mode (fd s minor) AND S_IWUSR H \<noteq> 0" and "0 < sz" and "int sz \<le> PIPE_BUF H"
    and "resolve_peer H s minor = int p"
    and "mode (fd s p) AND S_IRUSR H \<noteq> 0" and "0 < size_f (fd s p)"
  shows "uds_perform_write n H E minor m_src sz pretend s = Some (int sz, s)"
proof -
  have "dgram_peer H s minor = int p" using assms by (simp add: resolve_peer_def)
  with dgram_peer_cases[of H s minor] have "p < NR_FDS s" by auto
  with assms show ?thesis
    by (simp add: uds_perform_write_def perform_write_body_def Let_def)
qed

theorem dgram_drop_witness:
  "resolve_peer hdr_example dgram_example 1 = 2 \<and> size_f (fd dgram_example 2) = 3 \<and>
   uds_perform_write 0 hdr_example ext_example 1 1 5 False dgram_example = Some (5, dgram_example)"
proof -
  have h: "resolve_peer hdr_example dgram_example 1 = int 2"
    by (simp add: resolve_peer_def dgram_peer_def dgram_match_def strncmp_eq_def path_a_def
        dgram_example_def ex_defs upt_rec)
  have "uds_perform_write 0 hdr_example ext_example 1 1 5 False dgram_example
          = Some (5, dgram_example)"
    using dgram_drop[of 1 dgram_example hdr_example 5 2 0 ext_example 1 False, OF _ _ _ _ _ _ _ h]
    by (simp add: dgram_example_def ex_defs)
  moreover have "size_f (fd dgram_example 2) = 3"
    by (simp add: dgram_example_def ex_defs)
  ultimately show ?thesis using h by simp
qed

subsection \<open>The order of the checks\<close>

text \<open>
  C10: a read or a write of size 0 returns 0 at once and leaves the whole state as it
  was, for every descriptor of the table, in every state, probing or not. The check of
  the size comes before the checks of the mode, of the connection, of the peer and of
  the room, so the call returns 0 also where the same call with a size above 0 returns
  \<^verbatim>\<open>EPIPE\<close> (socket shut down for that direction) or \<^verbatim>\<open>ENOTCONN\<close> (stream or
  sequential-packet socket without peer and without latched error).
\<close>

theorem zero_size_first:
  assumes "minor < NR_FDS s"
  shows "uds_perform_read n H E minor m_src 0 pretend s = Some (0, s) \<and>
         uds_perform_write n H E minor m_src 0 pretend s = Some (0, s) \<and>
         (0 < sz \<and> mode (fd s minor) AND S_IRUSR H = 0 \<longrightarrow>
            uds_perform_read n H E minor m_src sz pretend s = Some (EPIPE H, s)) \<and>
         (0 < sz \<and> mode (fd s minor) AND S_IWUSR H = 0 \<longrightarrow>
            uds_perform_write n H E minor m_src sz pretend s = Some (EPIPE H, s)) \<and>
         (0 < sz \<and> mode (fd s minor) AND S_IRUSR H \<noteq> 0 \<and> size_f (fd s minor) = 0 \<and>
          (type_f (fd s minor) = SOCK_STREAM H \<or> type_f (fd s minor) = SOCK_SEQPACKET H) \<and>
          peer (fd s minor) = - 1 \<and> err (fd s minor) \<noteq> ECONNRESET H \<longrightarrow>
            uds_perform_read n H E minor m_src sz pretend s = Some (ENOTCONN H, s)) \<and>
         (0 < sz \<and> int sz \<le> PIPE_BUF H \<and> mode (fd s minor) AND S_IWUSR H \<noteq> 0 \<and>
          (type_f (fd s minor) = SOCK_STREAM H \<or> type_f (fd s minor) = SOCK_SEQPACKET H) \<and>
          peer (fd s minor) = - 1 \<and> err (fd s minor) \<noteq> ECONNRESET H \<longrightarrow>
            uds_perform_write n H E minor m_src sz pretend s = Some (ENOTCONN H, s))"
proof -
  have z: "uds_perform_read n H E minor m_src 0 pretend s = Some (0, s)"
          "uds_perform_write n H E minor m_src 0 pretend s = Some (0, s)"
    using assms by (simp_all add: body_defs)
  have rd: "0 < sz \<and> mode (fd s minor) AND S_IRUSR H = 0 \<longrightarrow>
            uds_perform_read n H E minor m_src sz pretend s = Some (EPIPE H, s)"
    using assms by (simp add: body_defs)
  have wr: "0 < sz \<and> mode (fd s minor) AND S_IWUSR H = 0 \<longrightarrow>
            uds_perform_write n H E minor m_src sz pretend s = Some (EPIPE H, s)"
    using assms by (simp add: body_defs)
  have rn: "0 < sz \<and> mode (fd s minor) AND S_IRUSR H \<noteq> 0 \<and> size_f (fd s minor) = 0 \<and>
          (type_f (fd s minor) = SOCK_STREAM H \<or> type_f (fd s minor) = SOCK_SEQPACKET H) \<and>
          peer (fd s minor) = - 1 \<and> err (fd s minor) \<noteq> ECONNRESET H \<longrightarrow>
            uds_perform_read n H E minor m_src sz pretend s = Some (ENOTCONN H, s)"
    using assms by (simp add: body_defs)
  have wn: "0 < sz \<and> int sz \<le> PIPE_BUF H \<and> mode (fd s minor) AND S_IWUSR H \<noteq> 0 \<and>
          (type_f (fd s minor) = SOCK_STREAM H \<or> type_f (fd s minor) = SOCK_SEQPACKET H) \<and>
          peer (fd s minor) = - 1 \<and> err (fd s minor) \<noteq> ECONNRESET H \<longrightarrow>
            uds_perform_write n H E minor m_src sz pretend s = Some (ENOTCONN H, s)"
    using assms by (simp add: body_defs)
  from z rd wr rn wn show ?thesis by blast
qed

text \<open>
  On the socket that is shut down, reads and writes of size 0 return 0 and those of
  size 3 return \<^verbatim>\<open>EPIPE\<close>; on the stream socket without peer, they return 0 and
  \<^verbatim>\<open>ENOTCONN\<close>.
\<close>

theorem zero_size_first_witness:
  "uds_perform_read 0 hdr_example ext_example 1 1 0 False shut_example = Some (0, shut_example) \<and>
   uds_perform_write 0 hdr_example ext_example 1 1 0 False shut_example = Some (0, shut_example) \<and>
   uds_perform_read 0 hdr_example ext_example 1 1 3 False shut_example = Some (- 32, shut_example) \<and>
   uds_perform_write 0 hdr_example ext_example 1 1 3 False shut_example = Some (- 32, shut_example) \<and>
   uds_perform_read 0 hdr_example ext_example 1 1 0 False unlatched_example
     = Some (0, unlatched_example) \<and>
   uds_perform_write 0 hdr_example ext_example 1 1 0 False unlatched_example
     = Some (0, unlatched_example) \<and>
   uds_perform_read 0 hdr_example ext_example 1 1 3 False unlatched_example
     = Some (- 57, unlatched_example) \<and>
   uds_perform_write 0 hdr_example ext_example 1 1 3 False unlatched_example
     = Some (- 57, unlatched_example)"
proof -
  have a: "1 < NR_FDS shut_example" by (simp add: shut_example_def ex_defs)
  have b: "1 < NR_FDS unlatched_example" by (simp add: unlatched_example_def ex_defs)
  from zero_size_first[OF a, of 0 hdr_example ext_example 1 False 3]
       zero_size_first[OF b, of 0 hdr_example ext_example 1 False 3]
  show ?thesis
    by (simp add: shut_example_def unlatched_example_def ex_defs)
qed

subsection \<open>A socket shut down for reading\<close>

text \<open>
  C6, as amended: a read of a size other than 0 on a descriptor whose mode has reading
  disabled returns \<^verbatim>\<open>EPIPE\<close> and changes nothing, probing or not. (A read of size 0
  returns 0 first.)
\<close>

theorem read_disabled_epipe:
  assumes "minor < NR_FDS s" and "mode (fd s minor) AND S_IRUSR H = 0" and "0 < sz"
  shows "uds_perform_read n H E minor m_src sz pretend s = Some (EPIPE H, s)"
  using assms by (simp add: body_defs)

theorem read_disabled_epipe_witness:
  "mode (fd shut_example 1) AND S_IRUSR hdr_example = 0 \<and>
   uds_perform_read 0 hdr_example ext_example 1 1 3 True shut_example = Some (- 32, shut_example)"
proof -
  have a: "1 < NR_FDS shut_example" by (simp add: shut_example_def ex_defs)
  have b: "mode (fd shut_example 1) AND S_IRUSR hdr_example = 0"
    by (simp add: shut_example_def ex_defs)
  from read_disabled_epipe[OF a b, of 3 0 ext_example 1 True] b
  show ?thesis by (simp add: hdr_example_def)
qed

text \<open>
  The claim as it was stated, for every requested size, fails at size 0: the read on the
  socket that is shut down for reading returns 0, which is not \<^verbatim>\<open>EPIPE\<close>.
\<close>

theorem read_disabled_epipe_counterexample:
  "mode (fd shut_example 1) AND S_IRUSR hdr_example = 0 \<and>
   uds_perform_read 0 hdr_example ext_example 1 1 0 False shut_example = Some (0, shut_example) \<and>
   uds_perform_read 0 hdr_example ext_example 1 1 0 False shut_example
     \<noteq> Some (EPIPE hdr_example, shut_example)"
  by (simp add: body_defs shut_example_def ex_defs)

subsection \<open>The latched error\<close>

text \<open>
  C5, as amended: on a stream or sequential-packet descriptor with an empty buffer, no
  peer and \<^verbatim>\<open>ECONNRESET\<close> in the error latch, the next read or write that passes the
  checks made before the connection is looked at (a size above 0, the direction not shut
  down, and for a write a size of at most \<^verbatim>\<open>PIPE_BUF\<close>) returns \<^verbatim>\<open>ECONNRESET\<close> and
  clears the latch, probing or not, and changes nothing else. A read or write that
  follows at once in that state, under the same conditions, returns \<^verbatim>\<open>ENOTCONN\<close> and
  leaves the state alone: the latched error is handed out once.
\<close>

theorem latch_consumed_once:
  assumes "minor < NR_FDS s"
    and "type_f (fd s minor) = SOCK_STREAM H \<or> type_f (fd s minor) = SOCK_SEQPACKET H"
    and "size_f (fd s minor) = 0" and "peer (fd s minor) = - 1"
    and "err (fd s minor) = ECONNRESET H" and "ECONNRESET H \<noteq> 0"
    and "0 < sz" and "0 < sz'"
    and "s' = fd_upd minor (\<lambda>f. f\<lparr>err := 0\<rparr>) s"
  shows "(mode (fd s minor) AND S_IRUSR H \<noteq> 0 \<longrightarrow>
            uds_perform_read n H E minor m_src sz pretend s = Some (ECONNRESET H, s') \<and>
            uds_perform_read n' H E minor m_src' sz' pretend' s' = Some (ENOTCONN H, s')) \<and>
         (mode (fd s minor) AND S_IWUSR H \<noteq> 0 \<and> int sz \<le> PIPE_BUF H \<and> int sz' \<le> PIPE_BUF H \<longrightarrow>
            uds_perform_write n H E minor m_src sz pretend s = Some (ECONNRESET H, s') \<and>
            uds_perform_write n' H E minor m_src' sz' pretend' s' = Some (ENOTCONN H, s')) \<and>
         (mode (fd s minor) AND S_IRUSR H \<noteq> 0 \<and> mode (fd s minor) AND S_IWUSR H \<noteq> 0 \<and>
          int sz \<le> PIPE_BUF H \<and> int sz' \<le> PIPE_BUF H \<longrightarrow>
            uds_perform_read n' H E minor m_src' sz' pretend' s' = Some (ENOTCONN H, s') \<and>
            uds_perform_write n' H E minor m_src' sz' pretend' s' = Some (ENOTCONN H, s'))"
proof -
  have r1: "mode (fd s minor) AND S_IRUSR H \<noteq> 0 \<Longrightarrow>
            uds_perform_read n H E minor m_src sz pretend s = Some (ECONNRESET H, s')"
    using assms by (simp add: body_defs)
  have r2: "mode (fd s minor) AND S_IRUSR H \<noteq> 0 \<Longrightarrow>
            uds_perform_read n' H E minor m_src' sz' pretend' s' = Some (ENOTCONN H, s')"
    using assms by (simp add: body_defs)
  have w1: "mode (fd s minor) AND S_IWUSR H \<noteq> 0 \<Longrightarrow> int sz \<le> PIPE_BUF H \<Longrightarrow>
            uds_perform_write n H E minor m_src sz pretend s = Some (ECONNRESET H, s')"
    using assms by (simp add: body_defs)
  have w2: "mode (fd s minor) AND S_IWUSR H \<noteq> 0 \<Longrightarrow> int sz' \<le> PIPE_BUF H \<Longrightarrow>
            uds_perform_write n' H E minor m_src' sz' pretend' s' = Some (ENOTCONN H, s')"
    using assms by (simp add: body_defs)
  from r1 r2 w1 w2 show ?thesis by blast
qed

text \<open>
  On the stream socket with the latched error: a read of three bytes returns
  \<^verbatim>\<open>ECONNRESET\<close> and leaves the socket without the latch, and so does a write; a read or
  a write after that returns \<^verbatim>\<open>ENOTCONN\<close>.
\<close>

theorem latch_consumed_once_witness:
  "err (fd latched_example 1) = ECONNRESET hdr_example \<and>
   uds_perform_read 0 hdr_example ext_example 1 1 3 False latched_example
     = Some (- 54, unlatched_example) \<and>
   uds_perform_write 0 hdr_example ext_example 1 1 3 False latched_example
     = Some (- 54, unlatched_example) \<and>
   uds_perform_read 0 hdr_example ext_example 1 1 2 False unlatched_example
     = Some (- 57, unlatched_example) \<and>
   uds_perform_write 0 hdr_example ext_example 1 1 2 False unlatched_example
     = Some (- 57, unlatched_example)"
proof -
  have a: "1 < NR_FDS latched_example" by (simp add: latched_example_def ex_defs)
  have b: "type_f (fd latched_example 1) = SOCK_STREAM hdr_example \<or>
           type_f (fd latched_example 1) = SOCK_SEQPACKET hdr_example"
    by (simp add: latched_example_def ex_defs)
  have c: "size_f (fd latched_example 1) = 0" "peer (fd latched_example 1) = - 1"
    "err (fd latched_example 1) = ECONNRESET hdr_example" "ECONNRESET hdr_example \<noteq> 0"
    by (simp_all add: latched_example_def ex_defs)
  have d: "unlatched_example = fd_upd 1 (\<lambda>f. f\<lparr>err := 0\<rparr>) latched_example"
    by (simp add: latched_example_def unlatched_example_def ex_defs)
  have e: "mode (fd latched_example 1) AND S_IRUSR hdr_example \<noteq> 0"
    "mode (fd latched_example 1) AND S_IWUSR hdr_example \<noteq> 0"
    "PIPE_BUF hdr_example = 16" "ECONNRESET hdr_example = - 54" "ENOTCONN hdr_example = - 57"
    by (simp_all add: latched_example_def ex_defs)
  from latch_consumed_once[OF a b c(1) c(2) c(3) c(4) _ _ d,
         of 3 2 0 ext_example 1 False 0 1 False] e c(3)
  show ?thesis by simp
qed

text \<open>
  The claim as it was stated, for the next read or write whatever it is, fails for a
  read of size 0: it returns 0 and the latch still holds \<^verbatim>\<open>ECONNRESET\<close>.
\<close>

theorem latch_consumed_once_counterexample:
  "type_f (fd latched_example 1) = SOCK_STREAM hdr_example \<and>
   size_f (fd latched_example 1) = 0 \<and> peer (fd latched_example 1) = - 1 \<and>
   err (fd latched_example 1) = ECONNRESET hdr_example \<and>
   uds_perform_read 0 hdr_example ext_example 1 1 0 False latched_example
     = Some (0, latched_example) \<and>
   uds_perform_read 0 hdr_example ext_example 1 1 0 False latched_example
     \<noteq> Some (ECONNRESET hdr_example, unlatched_example)"
  by (simp add: body_defs latched_example_def unlatched_example_def ex_defs)

subsection \<open>A datagram without a receiver\<close>




subsection \<open>Cancelling an accept\<close>

lemma NR_FDS_cancel_accept [simp]: "NR_FDS (cancel_accept m s) = NR_FDS s"
  by (simp add: cancel_accept_def NR_FDS_def)

lemma fd_cancel_accept:
  "i < NR_FDS s \<Longrightarrow>
   fd (cancel_accept m s) i = (if child (fd s i) = int m then (fd s i)\<lparr>child := - 1\<rparr> else fd s i)"
  by (simp add: cancel_accept_def NR_FDS_def fd_def)

lemma cancel_connect_fd:
  assumes "cancel_connect H m s = Some s'"
  shows "NR_FDS s' = NR_FDS s \<and> replies s' = replies s \<and> fs_calls s' = fs_calls s \<and>
         (\<forall>i < NR_FDS s. \<exists>b a. fd s' i = (fd s i)\<lparr>backlog := b, addr := a\<rparr>)"
proof -
  let ?g = "\<lambda>f. if state f = UDS_INUSE H
                 then f\<lparr>backlog := map (\<lambda>b. if b = int m then - 1 else b)
                                        (take (backlog_size f) (backlog f))
                                    @ drop (backlog_size f) (backlog f)\<rparr>
                 else f"
  let ?s1 = "s\<lparr>uds_fd_table := map ?g (uds_fd_table s)\<rparr>"
  from assms have s': "s' = fd_upd m (\<lambda>f. f\<lparr>addr := zero_sockaddr H\<rparr>) ?s1"
    by (simp add: cancel_connect_def Let_def split: if_splits)
  have n: "NR_FDS ?s1 = NR_FDS s" by (simp add: NR_FDS_def)
  have g: "\<exists>b. ?g f = f\<lparr>backlog := b\<rparr>" for f :: uds_fd
  proof (cases "state f = UDS_INUSE H")
    case True then show ?thesis by auto
  next
    case False
    then have "?g f = f\<lparr>backlog := backlog f\<rparr>" by simp
    then show ?thesis by blast
  qed
  have "\<forall>i < NR_FDS s. \<exists>b a. fd s' i = (fd s i)\<lparr>backlog := b, addr := a\<rparr>"
  proof (intro allI impI)
    fix i assume i: "i < NR_FDS s"
    then have 1: "fd ?s1 i = ?g (fd s i)" by (simp add: fd_def NR_FDS_def)
    obtain b where b: "?g (fd s i) = (fd s i)\<lparr>backlog := b\<rparr>" using g by blast
    show "\<exists>b a. fd s' i = (fd s i)\<lparr>backlog := b, addr := a\<rparr>"
    proof (cases "i = m")
      case True
      with i n have "fd s' i = (?g (fd s i))\<lparr>addr := zero_sockaddr H\<rparr>"
        unfolding s' using 1 by (simp add: fd_fd_upd)
      with b show ?thesis by auto
    next
      case False
      then have "fd s' i = ?g (fd s i)" unfolding s' using 1 by (simp add: fd_fd_upd)
      with b have "fd s' i = (fd s i)\<lparr>backlog := b, addr := addr (fd s i)\<rparr>" by simp
      then show ?thesis by blast
    qed
  qed
  moreover have "NR_FDS s' = NR_FDS s" unfolding s' using n by simp
  moreover have "replies s' = replies s \<and> fs_calls s' = fs_calls s" unfolding s' by simp
  ultimately show ?thesis by blast
qed

lemma cancel_connect_None:
  "cancel_connect H m s = None \<Longrightarrow>
   \<exists>i < NR_FDS s. backlog_size (fd s i) > length (backlog (fd s i))"
  by (auto simp: cancel_connect_def Let_def list_ex_iff in_set_conv_nth NR_FDS_def fd_def
      split: if_splits)

text \<open>
  C8: cancelling an \<^verbatim>\<open>accept\<close> that is in flight and not completed, on a handle in
  use, leaves no descriptor of the table with \<^verbatim>\<open>child\<close> equal to that handle, marks the
  call done and returns \<^verbatim>\<open>EINTR\<close>. Whatever call is in flight, a cancel on a handle in
  use that returns has cleared \<^verbatim>\<open>selecting\<close> and \<^verbatim>\<open>suspended\<close> of the handle and
  returns \<^verbatim>\<open>EINTR\<close>, with the recorded call marked done. It fails to return only when
  it rolls back a \<^verbatim>\<open>connect\<close> over a backlog whose recorded size exceeds the array.
\<close>

theorem cancel_rollback:
  assumes "uds_minor m = minor" and "minor < NR_FDS s" and "state (fd s minor) = UDS_INUSE H"
  shows "(call_nr (fd s minor) = DEV_IOCTL_S H \<and> DEV_IOCTL_S H \<noteq> 0 \<and>
          syscall_done (fd s minor) = 0 \<and> ioctl (fd s minor) = NWIOSUDSACCEPT H \<longrightarrow>
            (\<exists>s'. uds_cancel H m s =
                     Some ((EINTR H, Some (uds_set_reply DEV_REVIVE (USER_ENDPT m) (IO_GRANT m) (EINTR H))), s') \<and>
                   NR_FDS s' = NR_FDS s \<and>
                   (\<forall>i < NR_FDS s'. child (fd s' i) \<noteq> int minor) \<and>
                   selecting (fd s' minor) = 0 \<and>
                   suspended (fd s' minor) = UDS_NOT_SUSPENDED H \<and>
                   syscall_done (fd s' minor) = 1)) \<and>
         (\<forall>r s'. uds_cancel H m s = Some (r, s') \<longrightarrow>
            fst r = EINTR H \<and> selecting (fd s' minor) = 0 \<and>
            suspended (fd s' minor) = UDS_NOT_SUSPENDED H \<and>
            (call_nr (fd s minor) \<noteq> 0 \<longrightarrow> syscall_done (fd s' minor) \<noteq> 0)) \<and>
         (uds_cancel H m s = None \<longrightarrow>
            call_nr (fd s minor) = DEV_IOCTL_S H \<and> ioctl (fd s minor) = NWIOSUDSCONN H \<and>
            syscall_done (fd s minor) = 0 \<and>
            (\<exists>i < NR_FDS s. backlog_size (fd s i) > length (backlog (fd s i))))"
proof -
  let ?s3 = "fd_upd minor (\<lambda>f. f\<lparr>suspended := UDS_NOT_SUSPENDED H\<rparr>)
               (fd_upd minor (\<lambda>f. f\<lparr>selecting := 0\<rparr>)
                  (fd_upd minor (\<lambda>f. f\<lparr>endpoint := USER_ENDPT m\<rparr>) s))"
  have a: "call_nr (fd s minor) = DEV_IOCTL_S H \<and> DEV_IOCTL_S H \<noteq> 0 \<and>
          syscall_done (fd s minor) = 0 \<and> ioctl (fd s minor) = NWIOSUDSACCEPT H \<longrightarrow>
            (\<exists>s'. uds_cancel H m s =
                     Some ((EINTR H, Some (uds_set_reply DEV_REVIVE (USER_ENDPT m) (IO_GRANT m) (EINTR H))), s') \<and>
                   NR_FDS s' = NR_FDS s \<and>
                   (\<forall>i < NR_FDS s'. child (fd s' i) \<noteq> int minor) \<and>
                   selecting (fd s' minor) = 0 \<and>
                   suspended (fd s' minor) = UDS_NOT_SUSPENDED H \<and>
                   syscall_done (fd s' minor) = 1)"
  proof
    assume h: "call_nr (fd s minor) = DEV_IOCTL_S H \<and> DEV_IOCTL_S H \<noteq> 0 \<and>
          syscall_done (fd s minor) = 0 \<and> ioctl (fd s minor) = NWIOSUDSACCEPT H"
    let ?s' = "fd_upd minor (\<lambda>f. f\<lparr>syscall_done := 1\<rparr>) (cancel_accept minor ?s3)"
    have 1: "uds_cancel H m s =
        Some ((EINTR H, Some (uds_set_reply DEV_REVIVE (USER_ENDPT m) (IO_GRANT m) (EINTR H))), ?s')"
      using assms h by (simp add: uds_cancel_def Let_def)
    have 2: "\<forall>i < NR_FDS ?s'. child (fd ?s' i) \<noteq> int minor"
      using assms by (auto simp: fd_fd_upd fd_cancel_accept)
    have 3: "selecting (fd ?s' minor) = 0 \<and> suspended (fd ?s' minor) = UDS_NOT_SUSPENDED H \<and>
             syscall_done (fd ?s' minor) = 1 \<and> NR_FDS ?s' = NR_FDS s"
      using assms by (simp add: fd_fd_upd fd_cancel_accept)
    from 1 2 3 show "\<exists>s'. uds_cancel H m s =
                     Some ((EINTR H, Some (uds_set_reply DEV_REVIVE (USER_ENDPT m) (IO_GRANT m) (EINTR H))), s') \<and>
                   NR_FDS s' = NR_FDS s \<and>
                   (\<forall>i < NR_FDS s'. child (fd s' i) \<noteq> int minor) \<and>
                   selecting (fd s' minor) = 0 \<and>
                   suspended (fd s' minor) = UDS_NOT_SUSPENDED H \<and>
                   syscall_done (fd s' minor) = 1"
      by blast
  qed
  have b: "\<forall>r s'. uds_cancel H m s = Some (r, s') \<longrightarrow>
            fst r = EINTR H \<and> selecting (fd s' minor) = 0 \<and>
            suspended (fd s' minor) = UDS_NOT_SUSPENDED H \<and>
            (call_nr (fd s minor) \<noteq> 0 \<longrightarrow> syscall_done (fd s' minor) \<noteq> 0)"
    using assms
    by (auto simp: uds_cancel_def Let_def fd_fd_upd fd_cancel_accept bind_eq_Some_conv
          dest!: cancel_connect_fd split: if_splits)
  have c: "uds_cancel H m s = None \<longrightarrow>
            call_nr (fd s minor) = DEV_IOCTL_S H \<and> ioctl (fd s minor) = NWIOSUDSCONN H \<and>
            syscall_done (fd s minor) = 0 \<and>
            (\<exists>i < NR_FDS s. backlog_size (fd s i) > length (backlog (fd s i)))"
    using assms
    by (auto simp: uds_cancel_def Let_def fd_fd_upd bind_eq_None_conv
          dest!: cancel_connect_None split: if_splits)
  from a b c show ?thesis by blast
qed

text \<open>
  Cancelling the interrupted \<^verbatim>\<open>accept\<close> of slot 1: slot 2 named it as its child before
  and no longer does.
\<close>

theorem cancel_rollback_witness:
  "child (fd accept_example 2) = 1 \<and> suspended (fd accept_example 1) = 8 \<and>
   (case uds_cancel hdr_example (msg_example 1 0) accept_example of
      None \<Rightarrow> False
    | Some (r, s') \<Rightarrow>
        fst r = - 4 \<and> child (fd s' 0) \<noteq> 1 \<and> child (fd s' 1) \<noteq> 1 \<and> child (fd s' 2) \<noteq> 1 \<and>
        selecting (fd s' 1) = 0 \<and> suspended (fd s' 1) = 0 \<and> syscall_done (fd s' 1) = 1)"
proof -
  have a: "uds_minor (msg_example 1 0) = 1" by (simp add: uds_minor_def msg_example_def)
  have b: "1 < NR_FDS accept_example" "NR_FDS accept_example = 3"
    "state (fd accept_example 1) = UDS_INUSE hdr_example"
    by (simp_all add: accept_example_def ex_defs)
  have c: "call_nr (fd accept_example 1) = DEV_IOCTL_S hdr_example \<and> DEV_IOCTL_S hdr_example \<noteq> 0 \<and>
           syscall_done (fd accept_example 1) = 0 \<and>
           ioctl (fd accept_example 1) = NWIOSUDSACCEPT hdr_example"
    by (simp add: accept_example_def ex_defs)
  have d: "child (fd accept_example 2) = 1" "suspended (fd accept_example 1) = 8"
    "EINTR hdr_example = - 4" "UDS_NOT_SUSPENDED hdr_example = 0"
    by (simp_all add: accept_example_def ex_defs)
  from cancel_rollback[OF a b(1) b(3)] c obtain s' where
    s': "uds_cancel hdr_example (msg_example 1 0) accept_example =
           Some ((EINTR hdr_example,
                  Some (uds_set_reply DEV_REVIVE (USER_ENDPT (msg_example 1 0))
                          (IO_GRANT (msg_example 1 0)) (EINTR hdr_example))), s')"
        "NR_FDS s' = NR_FDS accept_example"
        "\<forall>i < NR_FDS s'. child (fd s' i) \<noteq> int 1"
        "selecting (fd s' 1) = 0" "suspended (fd s' 1) = UDS_NOT_SUSPENDED hdr_example"
        "syscall_done (fd s' 1) = 1"
    by blast
  from s'(2,3) b(2) have "child (fd s' 0) \<noteq> 1 \<and> child (fd s' 1) \<noteq> 1 \<and> child (fd s' 2) \<noteq> 1"
    by simp
  with s' d show ?thesis by simp
qed

subsection \<open>What every call of the three functions keeps\<close>

lemma post_None [simp]: "post R s None"
  by (simp add: post_def)

lemma post_Some [simp]: "post R s (Some (r, s')) = R s s'"
  by (simp add: post_def)

lemma post_st_None [simp]: "post_st R s None"
  by (simp add: post_st_def)

lemma post_st_Some [simp]: "post_st R s (Some s') = R s s'"
  by (simp add: post_st_def)

lemma post_if: "(c \<Longrightarrow> post R s a) \<Longrightarrow> (\<not> c \<Longrightarrow> post R s b) \<Longrightarrow> post R s (if c then a else b)"
  by simp

lemma post_st_if:
  "(c \<Longrightarrow> post_st R s a) \<Longrightarrow> (\<not> c \<Longrightarrow> post_st R s b) \<Longrightarrow> post_st R s (if c then a else b)"
  by simp

lemma post_st_map: "post R s x \<Longrightarrow> post_st R s (map_option snd x)"
  by (auto simp: post_def post_st_def)

lemma post_bind_st:
  "post_st R s x \<Longrightarrow> (\<And>s1. R s s1 \<Longrightarrow> post R s (f s1)) \<Longrightarrow> post R s (x \<bind> f)"
  by (auto simp: post_def post_st_def bind_eq_Some_conv)

lemma post_st_bind_st:
  "post_st R s x \<Longrightarrow> (\<And>s1. R s s1 \<Longrightarrow> post_st R s (f s1)) \<Longrightarrow> post_st R s (x \<bind> f)"
  by (auto simp: post_def post_st_def bind_eq_Some_conv)

lemma post_bind:
  "post R s x \<Longrightarrow> (\<And>r1 s1. R s s1 \<Longrightarrow> post R s (f (r1, s1))) \<Longrightarrow> post R s (x \<bind> f)"
  by (auto simp: post_def bind_eq_Some_conv)

lemma post_call:
  "(\<And>a. R a a) \<Longrightarrow> (\<And>a b c. R a b \<Longrightarrow> R b c \<Longrightarrow> R a c) \<Longrightarrow> R s s0 \<Longrightarrow> post R s0 x \<Longrightarrow> post R s x"
  by (auto simp: post_def)

lemma same_links_refl [simp]: "same_links s s"
  by (simp add: same_links_def)

lemma same_links_trans: "same_links a b \<Longrightarrow> same_links b c \<Longrightarrow> same_links a c"
  by (simp add: same_links_def)

lemma same_links_upd:
  "(\<And>f0. peer (f f0) = peer f0 \<and> inode_nr (f f0) = inode_nr f0) \<Longrightarrow> same_links s (fd_upd i f s)"
  by (simp add: same_links_def fd_fd_upd)

lemma same_links_upd':
  "same_links s s1 \<Longrightarrow> (\<And>f0. peer (f f0) = peer f0 \<and> inode_nr (f f0) = inode_nr f0) \<Longrightarrow>
   same_links s (fd_upd i f s1)"
  by (simp add: same_links_def fd_fd_upd)

lemma same_links_fs [simp]: "same_links s (s\<lparr>fs_calls := k\<rparr>)"
  by (simp add: same_links_def NR_FDS_def fd_def)

lemma same_links_call:
  "post same_links s0 x \<Longrightarrow> same_links s s0 \<Longrightarrow> post same_links s x"
  by (auto simp: post_def intro: same_links_trans)

lemma read_body_links:
  assumes rv: "\<And>m p s0. post same_links s0 (rv m p s0)"
  shows "post same_links s (perform_read_body rv H E minor m_src sz pretend s)"
  unfolding perform_read_body_def Let_def call_fs_readwrite_def split_beta fst_conv snd_conv
  apply (intro post_if post_bind_st post_st_if post_st_map same_links_call[OF rv])
  apply (simp_all add: same_links_upd same_links_upd')
  done


lemma write_body_links:
  assumes rv: "\<And>m p s0. post same_links s0 (rv m p s0)"
  shows "post same_links s (perform_write_body rv H E minor m_src sz pretend s)"
  unfolding perform_write_body_def Let_def call_fs_readwrite_def split_beta fst_conv snd_conv
  apply (intro post_if post_bind_st post_st_if post_st_map same_links_call[OF rv])
  apply (simp_all add: same_links_upd same_links_upd')
  done

lemma same_links_reply [simp]: "same_links s (reply d m s) \<and> same_links (reply d m s) s"
  by (simp add: same_links_def reply_def NR_FDS_def fd_def)

lemma same_links_reply' : "same_links s s1 \<Longrightarrow> same_links s (reply d m s1)"
  by (simp add: same_links_def reply_def NR_FDS_def fd_def)

lemma unsuspend_body_links:
  assumes rd: "\<And>mi m z p s0. post same_links s0 (rd mi m z p s0)"
    and wr: "\<And>mi m z p s0. post same_links s0 (wr mi m z p s0)"
  shows "post same_links s (unsuspend_body rd wr H m_src minor s)"
  unfolding unsuspend_body_def Let_def split_beta fst_conv snd_conv
  apply (intro post_if post_bind same_links_call[OF rd] same_links_call[OF wr])
  apply (simp_all add: same_links_upd same_links_upd' same_links_reply')
  done

lemma unsuspend_links: "post same_links s (uds_unsuspend n H E m_src minor s)"
proof (induction n arbitrary: s m_src minor)
  case 0
  show ?case by simp
next
  case (Suc n)
  show ?case
    unfolding uds_unsuspend.simps
    by (rule unsuspend_body_links) (rule read_body_links write_body_links, rule Suc)+
qed

lemma perform_read_links: "post same_links s (uds_perform_read n H E minor m_src sz pretend s)"
  unfolding uds_perform_read_def by (rule read_body_links) (rule unsuspend_links)

lemma perform_write_links: "post same_links s (uds_perform_write n H E minor m_src sz pretend s)"
  unfolding uds_perform_write_def by (rule write_body_links) (rule unsuspend_links)


lemma keeps_window_refl [simp]: "keeps_window H s s"
  by (simp add: keeps_window_def)

lemma keeps_window_trans: "keeps_window H a b \<Longrightarrow> keeps_window H b c \<Longrightarrow> keeps_window H a c"
  by (simp add: keeps_window_def)

lemma keeps_window_upd':
  "keeps_window H s s1 \<Longrightarrow> (\<And>f0. pos (f f0) = pos f0 \<and> size_f (f f0) = size_f f0) \<Longrightarrow>
   keeps_window H s (fd_upd i f s1)"
  by (simp add: keeps_window_def window_ok_def fd_fd_upd)

lemma keeps_window_upd:
  "(\<And>f0. pos (f f0) = pos f0 \<and> size_f (f f0) = size_f f0) \<Longrightarrow> keeps_window H s (fd_upd i f s)"
  by (rule keeps_window_upd') simp_all

lemma keeps_window_fs [simp]: "keeps_window H s (s\<lparr>fs_calls := k\<rparr>)"
  by (simp add: keeps_window_def NR_FDS_def fd_def)

lemma keeps_window_reply': "keeps_window H s s1 \<Longrightarrow> keeps_window H s (reply d m s1)"
  by (simp add: keeps_window_def reply_def NR_FDS_def fd_def)

lemma keeps_window_call:
  "post (keeps_window H) s0 x \<Longrightarrow> keeps_window H s s0 \<Longrightarrow> post (keeps_window H) s x"
  by (auto simp: post_def intro: keeps_window_trans)

lemma NR_FDS_fs_calls [simp]: "NR_FDS (s\<lparr>fs_calls := k\<rparr>) = NR_FDS s"
  by (simp add: NR_FDS_def)

lemma fd_fs_calls [simp]: "fd (s\<lparr>fs_calls := k\<rparr>) i = fd s i"
  by (simp add: fd_def)

lemma to_size_t_bounds:
  assumes "0 \<le> SIZE_MAX H" and "0 \<le> x"
  shows "0 \<le> to_size_t H x" and "to_size_t H x \<le> x"
  using assms by (simp_all add: to_size_t_def zmod_le_nonneg_dividend)

lemma keeps_window_read_drained:
  assumes "0 \<le> PIPE_BUF H"
    and "size_f (fd (fd_upd minor (\<lambda>f. f\<lparr>size_f := to_size_t H (size_f f - nb)\<rparr>)
               (fd_upd minor (\<lambda>f. f\<lparr>pos := pos f + nb\<rparr>) (s\<lparr>fs_calls := k\<rparr>))) minor) = 0"
  shows "keeps_window H s
           (fd_upd minor (\<lambda>f. f\<lparr>pos := 0\<rparr>)
             (fd_upd minor (\<lambda>f. f\<lparr>size_f := to_size_t H (size_f f - nb)\<rparr>)
               (fd_upd minor (\<lambda>f. f\<lparr>pos := pos f + nb\<rparr>) (s\<lparr>fs_calls := k\<rparr>))))"
  using assms
  by (auto simp: keeps_window_def window_ok_def fd_fd_upd)

lemma keeps_window_read_moved:
  assumes "transfers_at_most H E" and "0 \<le> SIZE_MAX H"
    and "fst (fs_readwrite E k req) = OK H" and "REQ_NBYTES req \<le> size_f (fd s minor)"
  shows "keeps_window H s
     (fd_upd minor (\<lambda>f. f\<lparr>size_f := to_size_t H (size_f f - snd (fs_readwrite E k req))\<rparr>)
        (fd_upd minor (\<lambda>f. f\<lparr>pos := pos f + snd (fs_readwrite E k req)\<rparr>)
           (s\<lparr>fs_calls := k'\<rparr>)))"
proof -
  let ?nb = "snd (fs_readwrite E k req)"
  from assms(1) have "fst (fs_readwrite E k req) = OK H \<longrightarrow> 0 \<le> ?nb \<and> ?nb \<le> REQ_NBYTES req"
    unfolding transfers_at_most_def by blast
  with assms(3,4) have d: "0 \<le> size_f (fd s minor) - ?nb" by simp
  from to_size_t_bounds[OF assms(2) d]
  have "0 \<le> to_size_t H (size_f (fd s minor) - ?nb)"
    "pos (fd s minor) + ?nb + to_size_t H (size_f (fd s minor) - ?nb)
       \<le> pos (fd s minor) + size_f (fd s minor)"
    by simp_all
  then show ?thesis
    by (auto simp: keeps_window_def window_ok_def fd_fd_upd)
qed

lemma read_body_window:
  assumes rv: "\<And>m p s0. post (keeps_window H) s0 (rv m p s0)" and B: "0 \<le> PIPE_BUF H"
    and T: "transfers_at_most H E" and M: "0 \<le> SIZE_MAX H"
  shows "post (keeps_window H) s (perform_read_body rv H E minor m_src sz pretend s)"
  unfolding perform_read_body_def Let_def call_fs_readwrite_def split_beta fst_conv snd_conv
  apply (intro post_if post_bind_st post_st_if post_st_map keeps_window_call[OF rv])
  apply (simp_all add: keeps_window_upd keeps_window_upd' keeps_window_read_drained[OF B]
     keeps_window_read_moved[OF T M])
  done

lemma keeps_window_write_step:
  assumes "transfers_at_most H E" and "0 \<le> SIZE_MAX H"
    and "fst (fs_readwrite E k req) = OK H" and "REQ_NBYTES req = int sz"
    and "\<not> pos (fd s p) + size_f (fd s p) + int sz > PIPE_BUF H"
  shows "keeps_window H s
           (fd_upd p (\<lambda>f. f\<lparr>size_f := to_size_t H (size_f f + snd (fs_readwrite E k req))\<rparr>)
              (s\<lparr>fs_calls := k'\<rparr>))"
proof -
  let ?nb = "snd (fs_readwrite E k req)"
  from assms(1) have "fst (fs_readwrite E k req) = OK H \<longrightarrow> 0 \<le> ?nb \<and> ?nb \<le> REQ_NBYTES req"
    unfolding transfers_at_most_def by blast
  with assms(3,4) have nb: "0 \<le> ?nb" "?nb \<le> int sz" by simp_all
  have "0 \<le> to_size_t H (size_f (fd s p) + ?nb) \<and>
        pos (fd s p) + to_size_t H (size_f (fd s p) + ?nb) \<le> PIPE_BUF H"
    if "0 \<le> size_f (fd s p)"
  proof -
    from that nb(1) have "0 \<le> size_f (fd s p) + ?nb" by simp
    from to_size_t_bounds[OF assms(2) this] nb(2) assms(5) show ?thesis by simp
  qed
  then show ?thesis
    by (auto simp: keeps_window_def window_ok_def fd_fd_upd)
qed

lemma write_body_window:
  assumes rv: "\<And>m p s0. post (keeps_window H) s0 (rv m p s0)" and T: "transfers_at_most H E"
    and M: "0 \<le> SIZE_MAX H"
  shows "post (keeps_window H) s (perform_write_body rv H E minor m_src sz pretend s)"
  unfolding perform_write_body_def Let_def call_fs_readwrite_def split_beta fst_conv snd_conv
  apply (intro post_if post_bind_st post_st_if post_st_map keeps_window_call[OF rv])
  apply (simp_all add: keeps_window_upd keeps_window_upd' keeps_window_write_step[OF T M])
  done

lemma unsuspend_body_window:
  assumes rd: "\<And>mi m z p s0. post (keeps_window H) s0 (rd mi m z p s0)"
    and wr: "\<And>mi m z p s0. post (keeps_window H) s0 (wr mi m z p s0)"
  shows "post (keeps_window H) s (unsuspend_body rd wr H m_src minor s)"
  unfolding unsuspend_body_def Let_def split_beta fst_conv snd_conv
  apply (intro post_if post_bind keeps_window_call[OF rd] keeps_window_call[OF wr])
  apply (simp_all add: keeps_window_upd keeps_window_upd' keeps_window_reply')
  done

lemma unsuspend_window:
  assumes "transfers_at_most H E" and "0 \<le> PIPE_BUF H" and "0 \<le> SIZE_MAX H"
  shows "post (keeps_window H) s (uds_unsuspend n H E m_src minor s)"
proof (induction n arbitrary: s m_src minor)
  case 0
  show ?case by simp
next
  case (Suc n)
  show ?case
    unfolding uds_unsuspend.simps
    by (rule unsuspend_body_window)
       (rule read_body_window[OF _ assms(2,1,3)] write_body_window[OF _ assms(1,3)], rule Suc)+
qed

lemma perform_read_window:
  assumes "transfers_at_most H E" and "0 \<le> PIPE_BUF H" and "0 \<le> SIZE_MAX H"
  shows "post (keeps_window H) s (uds_perform_read n H E minor m_src sz pretend s)"
  unfolding uds_perform_read_def
  by (rule read_body_window[OF _ assms(2,1,3)]) (rule unsuspend_window[OF assms])

lemma perform_write_window:
  assumes "transfers_at_most H E" and "0 \<le> PIPE_BUF H" and "0 \<le> SIZE_MAX H"
  shows "post (keeps_window H) s (uds_perform_write n H E minor m_src sz pretend s)"
  unfolding uds_perform_write_def
  by (rule write_body_window[OF _ assms(1,3)]) (rule unsuspend_window[OF assms])

lemma keeps_window_set:
  "keeps_window H s s1 \<Longrightarrow> (\<And>f0. window_ok H (f f0)) \<Longrightarrow> keeps_window H s (fd_upd i f s1)"
  by (simp add: keeps_window_def fd_fd_upd)

lemma window_ok_zero_fd: "0 \<le> PIPE_BUF H \<Longrightarrow> window_ok H (zero_fd H)"
  by (simp add: window_ok_def zero_fd_def)

lemma read_window:
  assumes "transfers_at_most H E" and "0 \<le> PIPE_BUF H" and "0 \<le> SIZE_MAX H"
  shows "post (keeps_window H) s (uds_read n H E m s)"
  unfolding uds_read_def Let_def
  apply (intro post_if post_bind keeps_window_call[OF perform_read_window[OF assms]])
  apply (simp_all add: keeps_window_upd)
  done

lemma write_window:
  assumes "transfers_at_most H E" and "0 \<le> PIPE_BUF H" and "0 \<le> SIZE_MAX H"
  shows "post (keeps_window H) s (uds_write n H E m s)"
  unfolding uds_write_def Let_def
  apply (intro post_if post_bind keeps_window_call[OF perform_write_window[OF assms]])
  apply (simp_all add: keeps_window_upd)
  done

lemma post_bind2:
  "post R s x \<Longrightarrow> (\<And>r1 s1. R s s1 \<Longrightarrow> post R s (f r1 s1)) \<Longrightarrow>
   post R s (x \<bind> (\<lambda>(r1, s1). f r1 s1))"
  by (auto simp: post_def bind_eq_Some_conv)

lemma select_window:
  assumes "transfers_at_most H E" and "0 \<le> PIPE_BUF H" and "0 \<le> SIZE_MAX H"
  shows "post (keeps_window H) s (uds_select n H E m s)"
  unfolding uds_select_def Let_def
  apply (intro post_if post_bind2 post_bind_st post_st_if
           keeps_window_call[OF perform_read_window[OF assms]]
           keeps_window_call[OF perform_write_window[OF assms]])
  apply (simp_all add: keeps_window_upd keeps_window_upd')
  done

lemma close_window:
  assumes "transfers_at_most H E" and "0 \<le> PIPE_BUF H" and "0 \<le> SIZE_MAX H"
  shows "post (keeps_window H) s (uds_close n H E m s)"
  unfolding uds_close_def Let_def clear_fds_def
  apply (intro post_if post_bind_st post_st_if post_st_map
           keeps_window_call[OF unsuspend_window[OF assms]])
  apply (simp_all add: keeps_window_upd keeps_window_upd' keeps_window_set
           window_ok_zero_fd[OF assms(2)])
  done

lemma open_window:
  assumes "0 \<le> PIPE_BUF H"
  shows "keeps_window H s (snd (uds_open H E m s))"
  unfolding uds_open_def Let_def split_beta
  by (simp add: keeps_window_upd' keeps_window_set window_ok_def zero_fd_def assms
        split: option.split)

lemma keeps_window_cancel_accept:
  "keeps_window H s s1 \<Longrightarrow> keeps_window H s (cancel_accept m s1)"
  by (simp add: keeps_window_def window_ok_def cancel_accept_def NR_FDS_def fd_def)

lemma keeps_window_cancel_connect:
  assumes "keeps_window H s s1"
  shows "post_st (keeps_window H) s (cancel_connect H m s1)"
proof -
  have "keeps_window H s s2" if "cancel_connect H m s1 = Some s2" for s2
  proof -
    from cancel_connect_fd[OF that] have n: "NR_FDS s2 = NR_FDS s1"
      and f: "\<forall>i < NR_FDS s1. \<exists>b a. fd s2 i = (fd s1 i)\<lparr>backlog := b, addr := a\<rparr>"
      by blast+
    have "window_ok H (fd s2 i) = window_ok H (fd s1 i)" if "i < NR_FDS s1" for i
    proof -
      from f that obtain b a where "fd s2 i = (fd s1 i)\<lparr>backlog := b, addr := a\<rparr>" by blast
      then show ?thesis by (simp add: window_ok_def)
    qed
    with assms n show ?thesis by (simp add: keeps_window_def)
  qed
  then show ?thesis by (simp add: post_st_def)
qed

lemma cancel_window: "post (keeps_window H) s (uds_cancel H m s)"
  unfolding uds_cancel_def Let_def
  apply (intro post_if post_bind_st post_st_if post_st_bind_st keeps_window_cancel_connect)
  apply (simp_all add: keeps_window_upd keeps_window_upd' keeps_window_cancel_accept)
  done

subsection \<open>The window of the buffer\<close>

text \<open>
  C1: every operation on the table (open, close, read, write, select, revive, cancel)
  that returns leaves the table at its length and leaves every descriptor that had
  \<^verbatim>\<open>pos + size <= PIPE_BUF\<close> before it with \<^verbatim>\<open>pos + size <= PIPE_BUF\<close> after it,
  whatever the depth of the revivals it sets off, provided that a transfer of the
  backend that succeeds moves a number of bytes between 0 and the number it was asked
  for. (\<^verbatim>\<open>size\<close> is a \<^verbatim>\<open>size_t\<close>, so it is not negative before and is shown not to be
  negative after; \<^verbatim>\<open>PIPE_BUF\<close> and \<^verbatim>\<open>SIZE_MAX\<close> are not negative.)
\<close>

theorem buffer_window_invariant:
  assumes "transfers_at_most H E" and "0 \<le> PIPE_BUF H" and "0 \<le> SIZE_MAX H"
    and "run_op n H E op s = Some s'"
    and "i < NR_FDS s" and "0 \<le> size_f (fd s i)"
    and "pos (fd s i) + size_f (fd s i) \<le> PIPE_BUF H"
  shows "NR_FDS s' = NR_FDS s \<and> 0 \<le> size_f (fd s' i) \<and>
         pos (fd s' i) + size_f (fd s' i) \<le> PIPE_BUF H"
proof -
  note a = assms(1,2,3)
  have "keeps_window H s s'"
  proof (cases op)
    case (Op_open m)
    with assms(4) open_window[OF assms(2)] show ?thesis by auto
  next
    case (Op_close m)
    with assms(4) close_window[OF a, of s n m] show ?thesis
      by (auto simp: post_def)
  next
    case (Op_read m)
    with assms(4) read_window[OF a, of s n m] show ?thesis
      by (auto simp: post_def)
  next
    case (Op_write m)
    with assms(4) write_window[OF a, of s n m] show ?thesis
      by (auto simp: post_def)
  next
    case (Op_select m)
    with assms(4) select_window[OF a, of s n m] show ?thesis
      by (auto simp: post_def)
  next
    case (Op_revive m_src minor)
    with assms(4) unsuspend_window[OF a, of s n m_src minor] show ?thesis
      by (auto simp: post_def)
  next
    case (Op_cancel m)
    with assms(4) cancel_window[of H s m] show ?thesis
      by (auto simp: post_def)
  qed
  with assms(5,6,7) show ?thesis by (simp add: keeps_window_def window_ok_def)
qed

text \<open>
  A write of five bytes from slot 1 to its peer in slot 2, which holds three: the peer
  holds eight afterwards, inside the buffer of sixteen.
\<close>

theorem buffer_window_invariant_witness:
  "0 \<le> size_f (fd pair_example 2) \<and>
   pos (fd pair_example 2) + size_f (fd pair_example 2) \<le> PIPE_BUF hdr_example \<and>
   (case run_op 1 hdr_example ext_checked_example (Op_write (msg_example 1 5)) pair_example of
      None \<Rightarrow> False
    | Some s' \<Rightarrow> size_f (fd s' 2) = 8 \<and> 0 \<le> size_f (fd s' 2) \<and>
                pos (fd s' 2) + size_f (fd s' 2) \<le> PIPE_BUF hdr_example)"
proof -
  have t: "transfers_at_most hdr_example ext_checked_example"
    by (simp add: transfers_at_most_def ext_checked_example_def hdr_example_def)
  have b: "0 \<le> PIPE_BUF hdr_example" "0 \<le> SIZE_MAX hdr_example"
    by (simp_all add: hdr_example_def)
  have w: "pos (fd pair_example 2) + size_f (fd pair_example 2) \<le> PIPE_BUF hdr_example"
    "2 < NR_FDS pair_example" "0 \<le> size_f (fd pair_example 2)"
    by (simp_all add: pair_example_def ex_defs)
  obtain s' where r: "run_op 1 hdr_example ext_checked_example (Op_write (msg_example 1 5))
      pair_example = Some s'" and z: "size_f (fd s' 2) = 8"
    by (simp add: uds_write_def uds_minor_def msg_example_def body_defs resolve_peer_def
        call_fs_readwrite_def pair_example_def ex_defs ext_checked_example_def to_size_t_def)
  from buffer_window_invariant[OF t b r w(2) w(3) w(1)] z w(1) w(3) show ?thesis
    unfolding r by simp
qed

text \<open>
  The lower bound on the byte count is needed. With a backend that answers a request
  for five bytes with success and the count -1, the write from slot 1 to the empty
  buffer of slot 2 stores \<^verbatim>\<open>SIZE_MAX\<close> in the \<^verbatim>\<open>size\<close> of slot 2, and the window of
  slot 2 leaves the buffer.
\<close>

lemma negative_count_wraps:
  "case run_op 1 hdr_example ext_short_example (Op_write (msg_example 1 5))
          (state_example [zero_fd hdr_example, fd_example 1 2 0, fd_example 1 1 0]) of
     None \<Rightarrow> False
   | Some s' \<Rightarrow> size_f (fd s' 2) = SIZE_MAX hdr_example \<and>
               \<not> pos (fd s' 2) + size_f (fd s' 2) \<le> PIPE_BUF hdr_example"
  by (simp add: uds_write_def uds_minor_def msg_example_def body_defs resolve_peer_def
      call_fs_readwrite_def ex_defs ext_short_example_def to_size_t_def)

subsection \<open>Reviving\<close>












subsection \<open>Closing\<close>

lemma unsuspend_same_links:
  "uds_unsuspend n H E m_src p s = Some (a, s1) \<Longrightarrow> same_links s s1"
  using unsuspend_links[of s n H E m_src p] by (simp add: post_def)

lemma state_zero_fd [simp]: "state (zero_fd H) = 0"
  by (simp add: zero_fd_def)

lemma fd_upd_overwrite: "fd_upd i (\<lambda>f. c) (fd_upd i g s) = fd_upd i (\<lambda>f. c) s"
  by (simp add: fd_upd_def)

lemma close_tail:
  "(let s2 = (if nfiledes (ancillary_data (fd s1 minor)) > 0 then clear_fds minor s1 else s1);
        ino = inode_nr (fd s2 minor);
        s3 = fd_upd minor (\<lambda>f. zero_fd H) s2;
        rc = fs_putnode E ino
    in if rc \<noteq> OK H then Some ((rc, None), s3)
       else Some ((OK H, Some (uds_set_reply DEV_CLOSE_REPL (USER_ENDPT m) (IO_GRANT m) (OK H))), s3))
   = Some (if fs_putnode E (inode_nr (fd s1 minor)) \<noteq> OK H
           then (fs_putnode E (inode_nr (fd s1 minor)), None)
           else (OK H, Some (uds_set_reply DEV_CLOSE_REPL (USER_ENDPT m) (IO_GRANT m) (OK H))),
           fd_upd minor (\<lambda>f. zero_fd H) s1)"
  by (simp add: Let_def clear_fds_def fd_upd_overwrite fd_fd_upd)

lemma close_no_peer:
  assumes "uds_minor m = minor" and "minor < NR_FDS s" and "state (fd s minor) = UDS_INUSE H"
    and "peer (fd s minor) = - 1"
  shows "uds_close n H E m s =
           Some (if fs_putnode E (inode_nr (fd s minor)) \<noteq> OK H
                 then (fs_putnode E (inode_nr (fd s minor)), None)
                 else (OK H, Some (uds_set_reply DEV_CLOSE_REPL (USER_ENDPT m) (IO_GRANT m) (OK H))),
                 fd_upd minor (\<lambda>f. zero_fd H) s)"
  unfolding uds_close_def
  using assms by (simp only: Let_def if_False if_True not_True_eq_False not_False_eq_True
       bind.bind_lunit simp_thms close_tail[unfolded Let_def])


lemma close_unfold:
  assumes "uds_minor m = minor" and "minor < NR_FDS s" and "state (fd s minor) = UDS_INUSE H"
  shows "uds_close n H E m s =
     (if peer (fd s minor) \<noteq> - 1 then
         if \<not> in_table s (peer (fd s minor)) then None
         else
           if suspended (fd (fd_upd (nat (peer (fd s minor))) (\<lambda>f. f\<lparr>err := ECONNRESET H\<rparr>)
                  (fd_upd (nat (peer (fd s minor))) (\<lambda>f. f\<lparr>peer := - 1\<rparr>) s))
                 (nat (peer (fd s minor)))) \<noteq> 0
           then map_option snd
                  (uds_unsuspend n H E (m_source m) (nat (peer (fd s minor)))
                     (fd_upd (nat (peer (fd s minor))) (\<lambda>f. f\<lparr>ready_to_revive := 1\<rparr>)
                        (fd_upd (nat (peer (fd s minor))) (\<lambda>f. f\<lparr>err := ECONNRESET H\<rparr>)
                           (fd_upd (nat (peer (fd s minor))) (\<lambda>f. f\<lparr>peer := - 1\<rparr>) s))))
           else Some (fd_upd (nat (peer (fd s minor))) (\<lambda>f. f\<lparr>err := ECONNRESET H\<rparr>)
                        (fd_upd (nat (peer (fd s minor))) (\<lambda>f. f\<lparr>peer := - 1\<rparr>) s))
       else Some s)
     \<bind> (\<lambda>s1. Some (if fs_putnode E (inode_nr (fd s1 minor)) \<noteq> OK H
                then (fs_putnode E (inode_nr (fd s1 minor)), None)
                else (OK H, Some (uds_set_reply DEV_CLOSE_REPL (USER_ENDPT m) (IO_GRANT m) (OK H))),
                fd_upd minor (\<lambda>f. zero_fd H) s1))"
  unfolding uds_close_def
  using assms by (simp only: Let_def if_False if_True not_True_eq_False not_False_eq_True
       simp_thms close_tail[unfolded Let_def])

lemma close_peer_idle:
  assumes "uds_minor m = minor" and "minor < NR_FDS s" and "state (fd s minor) = UDS_INUSE H"
    and "peer (fd s minor) = int p" and "p < NR_FDS s" and "suspended (fd s p) = 0"
    and "sb = fd_upd p (\<lambda>f. f\<lparr>err := ECONNRESET H\<rparr>) (fd_upd p (\<lambda>f. f\<lparr>peer := - 1\<rparr>) s)"
  shows "uds_close n H E m s =
           Some (if fs_putnode E (inode_nr (fd s minor)) \<noteq> OK H
                 then (fs_putnode E (inode_nr (fd s minor)), None)
                 else (OK H, Some (uds_set_reply DEV_CLOSE_REPL (USER_ENDPT m) (IO_GRANT m) (OK H))),
                 fd_upd minor (\<lambda>f. zero_fd H) sb)"
  unfolding close_unfold[OF assms(1,2,3)] using assms(2,4,5,6,7)
  by (simp add: fd_fd_upd)

lemma close_peer_suspended:
  assumes "uds_minor m = minor" and "minor < NR_FDS s" and "state (fd s minor) = UDS_INUSE H"
    and "peer (fd s minor) = int p" and "p < NR_FDS s" and "suspended (fd s p) \<noteq> 0"
    and "sb = fd_upd p (\<lambda>f. f\<lparr>err := ECONNRESET H\<rparr>) (fd_upd p (\<lambda>f. f\<lparr>peer := - 1\<rparr>) s)"
  shows "uds_close n H E m s =
           (case uds_unsuspend n H E (m_source m) p (fd_upd p (\<lambda>f. f\<lparr>ready_to_revive := 1\<rparr>) sb) of
              None \<Rightarrow> None
            | Some (a, s1) \<Rightarrow>
                Some (if fs_putnode E (inode_nr (fd s minor)) \<noteq> OK H
                      then (fs_putnode E (inode_nr (fd s minor)), None)
                      else (OK H, Some (uds_set_reply DEV_CLOSE_REPL (USER_ENDPT m) (IO_GRANT m) (OK H))),
                      fd_upd minor (\<lambda>f. zero_fd H) s1))"
proof (cases "uds_unsuspend n H E (m_source m) p (fd_upd p (\<lambda>f. f\<lparr>ready_to_revive := 1\<rparr>) sb)")
  case None
  then show ?thesis
    unfolding close_unfold[OF assms(1,2,3)] using assms(2,4,5,6,7)
    by (simp add: fd_fd_upd)
next
  case (Some x)
  obtain a s1 where x: "x = (a, s1)" by (cases x)
  from unsuspend_same_links[OF Some[unfolded x]]
  have "inode_nr (fd s1 minor) = inode_nr (fd s minor)"
    using assms(7) by (simp add: same_links_def fd_fd_upd)
  with Some x show ?thesis
    unfolding close_unfold[OF assms(1,2,3)] using assms(2,4,5,6,7)
    by (simp add: fd_fd_upd)
qed


lemma read_body_no_peer_returns:
  assumes "minor < NR_FDS s" and "peer (fd s minor) = - 1"
  shows "\<exists>r s'. perform_read_body rv H E minor m_src sz False s = Some (r, s')"
  using assms
  by (simp add: perform_read_body_def Let_def call_fs_readwrite_def split_beta)

lemma write_body_no_peer_returns:
  assumes "minor < NR_FDS s" and "peer (fd s minor) = - 1"
    and "type_f (fd s minor) = SOCK_STREAM H \<or> type_f (fd s minor) = SOCK_SEQPACKET H"
  shows "\<exists>r s'. perform_write_body rv H E minor m_src sz False s = Some (r, s')"
  using assms
  by (auto simp: perform_write_body_def Let_def)

lemma unsuspend_no_peer_returns:
  assumes "minor < NR_FDS s" and "peer (fd s minor) = - 1"
    and "type_f (fd s minor) = SOCK_STREAM H \<or> type_f (fd s minor) = SOCK_SEQPACKET H"
  shows "\<exists>r s'. uds_unsuspend (Suc n) H E m_src minor s = Some (r, s')"
proof -
  let ?s1 = "fd_upd minor (\<lambda>f. f\<lparr>ready_to_revive := 0\<rparr>) s"
  have p: "minor < NR_FDS ?s1" "peer (fd ?s1 minor) = - 1"
    "type_f (fd ?s1 minor) = SOCK_STREAM H \<or> type_f (fd ?s1 minor) = SOCK_SEQPACKET H"
    using assms by (simp_all add: fd_fd_upd)
  obtain r1 t1 where rd: "perform_read_body (uds_unsuspend n H E) H E minor m_src
      (io_gr_size (fd ?s1 minor)) False ?s1 = Some (r1, t1)"
    using read_body_no_peer_returns[OF p(1,2)] by blast
  obtain r2 t2 where wr: "perform_write_body (uds_unsuspend n H E) H E minor m_src
      (io_gr_size (fd ?s1 minor)) False ?s1 = Some (r2, t2)"
    using write_body_no_peer_returns[OF p] by blast
  show ?thesis
    using assms(1) rd wr
    by (simp add: unsuspend_body_def Let_def)
qed

text \<open>
  C4: \<^verbatim>\<open>uds_close\<close> on a handle whose slot is not in use returns \<^verbatim>\<open>EINVAL\<close> and
  leaves the state as it was. On a handle in use with peer \<open>p\<close> it sets the peer's
  \<^verbatim>\<open>peer\<close> to \<open>-1\<close> and its \<^verbatim>\<open>err\<close> to \<^verbatim>\<open>ECONNRESET\<close> (the state \<open>sb\<close>), then, if the
  peer was suspended, runs \<^verbatim>\<open>uds_unsuspend\<close> on it with \<^verbatim>\<open>ready_to_revive\<close> set, and
  last zeroes the closing slot. Whenever it returns, the closing slot is the zeroed
  slot (free, \<^verbatim>\<open>UDS_FREE\<close> being 0) and the peer (another slot) has no peer, also when the release of the inode
  fails: the value returned is then the error of the backend, no reply is written, and
  the slot is zeroed all the same. Without a peer the slot is zeroed in the same way.
  With a peer that is a stream or sequential-packet socket the call always returns, one
  level of revival being enough.
\<close>

theorem close_unlinks_peer:
  assumes "uds_minor m = minor" and "minor < NR_FDS s"
    and "ret = (if fs_putnode E (inode_nr (fd s minor)) \<noteq> OK H
                then (fs_putnode E (inode_nr (fd s minor)), None)
                else (OK H, Some (uds_set_reply DEV_CLOSE_REPL (USER_ENDPT m) (IO_GRANT m) (OK H))))"
    and "sb = fd_upd p (\<lambda>f. f\<lparr>err := ECONNRESET H\<rparr>) (fd_upd p (\<lambda>f. f\<lparr>peer := - 1\<rparr>) s)"
  shows
   "(state (fd s minor) \<noteq> UDS_INUSE H \<longrightarrow>
       uds_close n H E m s =
         Some ((EINVAL H,
                Some (uds_set_reply DEV_CLOSE_REPL (USER_ENDPT m) (IO_GRANT m) (EINVAL H))), s)) \<and>
    (state (fd s minor) = UDS_INUSE H \<and> peer (fd s minor) = - 1 \<longrightarrow>
       uds_close n H E m s = Some (ret, fd_upd minor (\<lambda>f. zero_fd H) s)) \<and>
    (state (fd s minor) = UDS_INUSE H \<and> peer (fd s minor) = int p \<and> p < NR_FDS s \<longrightarrow>
       peer (fd sb p) = - 1 \<and> err (fd sb p) = ECONNRESET H \<and>
       (suspended (fd s p) = 0 \<longrightarrow>
          uds_close n H E m s = Some (ret, fd_upd minor (\<lambda>f. zero_fd H) sb)) \<and>
       (suspended (fd s p) \<noteq> 0 \<longrightarrow>
          uds_close n H E m s =
            (case uds_unsuspend n H E (m_source m) p
                    (fd_upd p (\<lambda>f. f\<lparr>ready_to_revive := 1\<rparr>) sb) of
               None \<Rightarrow> None
             | Some (a, s1) \<Rightarrow> Some (ret, fd_upd minor (\<lambda>f. zero_fd H) s1))) \<and>
       (\<forall>r s'. uds_close n H E m s = Some (r, s') \<longrightarrow>
          r = ret \<and> NR_FDS s' = NR_FDS s \<and> fd s' minor = zero_fd H \<and>
          (p \<noteq> minor \<longrightarrow> peer (fd s' p) = - 1) \<and>
          (UDS_FREE H = 0 \<longrightarrow> state (fd s' minor) = UDS_FREE H))) \<and>
    (state (fd s minor) = UDS_INUSE H \<and> peer (fd s minor) = int p \<and> p < NR_FDS s \<and>
     (type_f (fd s p) = SOCK_STREAM H \<or> type_f (fd s p) = SOCK_SEQPACKET H) \<longrightarrow>
       (\<exists>r s'. uds_close (Suc k) H E m s = Some (r, s')))"
proof -
  have a: "state (fd s minor) \<noteq> UDS_INUSE H \<longrightarrow>
       uds_close n H E m s =
         Some ((EINVAL H,
                Some (uds_set_reply DEV_CLOSE_REPL (USER_ENDPT m) (IO_GRANT m) (EINVAL H))), s)"
    using assms(1,2) by (simp add: uds_close_def)
  have b: "state (fd s minor) = UDS_INUSE H \<and> peer (fd s minor) = - 1 \<longrightarrow>
       uds_close n H E m s = Some (ret, fd_upd minor (\<lambda>f. zero_fd H) s)"
    unfolding assms(3) using close_no_peer[OF assms(1,2)] by blast
  have c: "peer (fd sb p) = - 1 \<and> err (fd sb p) = ECONNRESET H \<and>
       (suspended (fd s p) = 0 \<longrightarrow>
          uds_close n H E m s = Some (ret, fd_upd minor (\<lambda>f. zero_fd H) sb)) \<and>
       (suspended (fd s p) \<noteq> 0 \<longrightarrow>
          uds_close n H E m s =
            (case uds_unsuspend n H E (m_source m) p
                    (fd_upd p (\<lambda>f. f\<lparr>ready_to_revive := 1\<rparr>) sb) of
               None \<Rightarrow> None
             | Some (a, s1) \<Rightarrow> Some (ret, fd_upd minor (\<lambda>f. zero_fd H) s1))) \<and>
       (\<forall>r s'. uds_close n H E m s = Some (r, s') \<longrightarrow>
          r = ret \<and> NR_FDS s' = NR_FDS s \<and> fd s' minor = zero_fd H \<and>
          (p \<noteq> minor \<longrightarrow> peer (fd s' p) = - 1) \<and>
          (UDS_FREE H = 0 \<longrightarrow> state (fd s' minor) = UDS_FREE H))"
    if h: "state (fd s minor) = UDS_INUSE H" "peer (fd s minor) = int p" "p < NR_FDS s"
  proof -
    have 1: "peer (fd sb p) = - 1 \<and> err (fd sb p) = ECONNRESET H"
      using h(3) assms(4) by (simp add: fd_fd_upd)
    have 2: "uds_close n H E m s = Some (ret, fd_upd minor (\<lambda>f. zero_fd H) sb)"
      if "suspended (fd s p) = 0"
      unfolding assms(3) by (rule close_peer_idle[OF assms(1,2) h that assms(4)])
    have 3: "uds_close n H E m s =
            (case uds_unsuspend n H E (m_source m) p
                    (fd_upd p (\<lambda>f. f\<lparr>ready_to_revive := 1\<rparr>) sb) of
               None \<Rightarrow> None
             | Some (a, s1) \<Rightarrow> Some (ret, fd_upd minor (\<lambda>f. zero_fd H) s1))"
      if "suspended (fd s p) \<noteq> 0"
      unfolding assms(3) by (rule close_peer_suspended[OF assms(1,2) h that assms(4)])
    have 4: "r = ret \<and> NR_FDS s' = NR_FDS s \<and> fd s' minor = zero_fd H \<and>
          (p \<noteq> minor \<longrightarrow> peer (fd s' p) = - 1) \<and>
          (UDS_FREE H = 0 \<longrightarrow> state (fd s' minor) = UDS_FREE H)"
      if r: "uds_close n H E m s = Some (r, s')" for r s'
    proof (cases "suspended (fd s p) = 0")
      case True
      from 2[OF True] r have "r = ret" "s' = fd_upd minor (\<lambda>f. zero_fd H) sb" by simp_all
      then show ?thesis using assms(2,4) h(3) by (simp add: fd_fd_upd)
    next
      case False
      from 3[OF False] r obtain a s1 where
        u: "uds_unsuspend n H E (m_source m) p (fd_upd p (\<lambda>f. f\<lparr>ready_to_revive := 1\<rparr>) sb)
              = Some (a, s1)"
        and e: "r = ret" "s' = fd_upd minor (\<lambda>f. zero_fd H) s1"
        by (auto split: option.splits)
      from unsuspend_same_links[OF u]
      have "NR_FDS s1 = NR_FDS s" "peer (fd s1 p) = - 1"
        using assms(4) h(3) by (simp_all add: same_links_def fd_fd_upd)
      with e show ?thesis using assms(2) by (simp add: fd_fd_upd)
    qed
    from 1 2 3 4 show ?thesis by blast
  qed
  have d: "\<exists>r s'. uds_close (Suc k) H E m s = Some (r, s')"
    if h: "state (fd s minor) = UDS_INUSE H" "peer (fd s minor) = int p" "p < NR_FDS s"
      and ty: "type_f (fd s p) = SOCK_STREAM H \<or> type_f (fd s p) = SOCK_SEQPACKET H"
  proof (cases "suspended (fd s p) = 0")
    case True
    from close_peer_idle[OF assms(1,2) h True assms(4)] show ?thesis by blast
  next
    case False
    let ?sr = "fd_upd p (\<lambda>f. f\<lparr>ready_to_revive := 1\<rparr>) sb"
    have "p < NR_FDS ?sr" "peer (fd ?sr p) = - 1"
      "type_f (fd ?sr p) = SOCK_STREAM H \<or> type_f (fd ?sr p) = SOCK_SEQPACKET H"
      using h(3) ty assms(4) by (simp_all add: fd_fd_upd)
    from unsuspend_no_peer_returns[OF this] obtain a s1 where
      "uds_unsuspend (Suc k) H E (m_source m) p ?sr = Some (a, s1)" by blast
    with close_peer_suspended[OF assms(1,2) h False assms(4), of "Suc k" E]
    show ?thesis by simp
  qed
  from a b c d show ?thesis by blast
qed

lemmas close_ex_defs = uds_close_def uds_minor_def msg_example_def unsuspend_body_def
  body_defs resolve_peer_def reply_def call_fs_readwrite_def clear_fds_def

text \<open>
  Closing the unused slot 0 returns \<^verbatim>\<open>EINVAL\<close>. Closing slot 1, whose peer in slot 2
  is suspended in a read: slot 1 is zeroed, slot 2 is unlinked and revived with
  \<^verbatim>\<open>ECONNRESET\<close>. Closing slot 1 with a backend that fails to release the inode:
  the error is returned, slot 1 is zeroed, and the peer holds the latched error.
\<close>

theorem close_unlinks_peer_witness:
  "uds_close (Suc 0) hdr_example ext_example (msg_example 0 0) close_example
     = Some ((- 22, Some (uds_set_reply DEV_CLOSE_REPL 100 3 (- 22))), close_example) \<and>
   (case uds_close (Suc 0) hdr_example ext_example (msg_example 1 0) close_example of
      None \<Rightarrow> False
    | Some (r, s') \<Rightarrow>
        r = (0, Some (uds_set_reply DEV_CLOSE_REPL 100 3 0)) \<and> fd s' 1 = zero_fd hdr_example \<and>
        peer (fd s' 2) = - 1 \<and> suspended (fd s' 2) = 0 \<and>
        replies s' = [(1, uds_set_reply DEV_REVIVE 77 0 (- 54))]) \<and>
   (case uds_close 0 hdr_example ext_fail_example (msg_example 1 0) pair_example of
      None \<Rightarrow> False
    | Some (r, s') \<Rightarrow>
        r = (- 5, None) \<and> fd s' 1 = zero_fd hdr_example \<and> peer (fd s' 2) = - 1 \<and>
        err (fd s' 2) = - 54)"
proof -
  have m: "uds_minor (msg_example k 0) = k" for k by (simp add: uds_minor_def msg_example_def)
  have n: "0 < NR_FDS close_example" "1 < NR_FDS close_example" "1 < NR_FDS pair_example"
    by (simp_all add: close_example_def pair_example_def ex_defs)
  have A: "uds_close (Suc 0) hdr_example ext_example (msg_example 0 0) close_example
     = Some ((- 22, Some (uds_set_reply DEV_CLOSE_REPL 100 3 (- 22))), close_example)"
    using close_unlinks_peer[OF m n(1) refl refl, where H = hdr_example and E = ext_example
            and p = 0 and n = "Suc 0", THEN conjunct1]
    by (simp add: close_example_def ex_defs msg_example_def)
  obtain r s' where B: "uds_close (Suc 0) hdr_example ext_example (msg_example 1 0) close_example
      = Some (r, s')"
    and B': "suspended (fd s' 2) = 0" "replies s' = [(1, uds_set_reply DEV_REVIVE 77 0 (- 54))]"
    by (simp add: close_ex_defs close_example_def ex_defs)
  have st: "state (fd close_example 1) = UDS_INUSE hdr_example \<and>
            peer (fd close_example 1) = int 2 \<and> 2 < NR_FDS close_example"
    by (simp add: close_example_def ex_defs)
  have rt: "(if fs_putnode ext_example (inode_nr (fd close_example 1)) \<noteq> OK hdr_example
             then (fs_putnode ext_example (inode_nr (fd close_example 1)), None)
             else (OK hdr_example,
                   Some (uds_set_reply DEV_CLOSE_REPL (USER_ENDPT (msg_example 1 0))
                           (IO_GRANT (msg_example 1 0)) (OK hdr_example))))
            = (0, Some (uds_set_reply DEV_CLOSE_REPL 100 3 0))"
    by (simp add: ext_example_def hdr_example_def msg_example_def)
  note T = close_unlinks_peer[OF m n(2) refl refl, where H = hdr_example and E = ext_example
             and p = 2 and n = "Suc 0", THEN conjunct2, THEN conjunct2, THEN conjunct1,
             THEN mp, OF st]
  have "\<forall>r s'. uds_close (Suc 0) hdr_example ext_example (msg_example 1 0) close_example
                 = Some (r, s') \<longrightarrow>
               r = (0, Some (uds_set_reply DEV_CLOSE_REPL 100 3 0)) \<and>
               NR_FDS s' = NR_FDS close_example \<and> fd s' 1 = zero_fd hdr_example \<and>
               ((2::nat) \<noteq> 1 \<longrightarrow> peer (fd s' 2) = - 1) \<and>
               (UDS_FREE hdr_example = 0 \<longrightarrow> state (fd s' 1) = UDS_FREE hdr_example)"
    using T unfolding rt by (rule conjunct2[OF conjunct2[OF conjunct2[OF conjunct2]]])
  with B have B2: "r = (0, Some (uds_set_reply DEV_CLOSE_REPL 100 3 0))"
    "fd s' 1 = zero_fd hdr_example" "peer (fd s' 2) = - 1"
    by simp_all
  have sp: "state (fd pair_example 1) = UDS_INUSE hdr_example \<and>
            peer (fd pair_example 1) = int 2 \<and> 2 < NR_FDS pair_example"
    "suspended (fd pair_example 2) = 0"
    by (simp_all add: pair_example_def ex_defs)
  have rf: "(if fs_putnode ext_fail_example (inode_nr (fd pair_example 1)) \<noteq> OK hdr_example
             then (fs_putnode ext_fail_example (inode_nr (fd pair_example 1)), None)
             else (OK hdr_example,
                   Some (uds_set_reply DEV_CLOSE_REPL (USER_ENDPT (msg_example 1 0))
                           (IO_GRANT (msg_example 1 0)) (OK hdr_example))))
            = (- 5, None)"
    by (simp add: ext_fail_example_def hdr_example_def)
  note U = close_unlinks_peer[OF m n(3) refl refl, where H = hdr_example
             and E = ext_fail_example and p = 2 and n = 0,
             THEN conjunct2, THEN conjunct2, THEN conjunct1, THEN mp, OF sp(1),
             THEN conjunct2, THEN conjunct2, THEN conjunct1, THEN mp, OF sp(2)]
  have C: "uds_close 0 hdr_example ext_fail_example (msg_example 1 0) pair_example
      = Some ((- 5, None),
              fd_upd 1 (\<lambda>f. zero_fd hdr_example)
                (fd_upd 2 (\<lambda>f. f\<lparr>err := ECONNRESET hdr_example\<rparr>)
                   (fd_upd 2 (\<lambda>f. f\<lparr>peer := - 1\<rparr>) pair_example)))"
    using U unfolding rf .
  have C2: "fd (fd_upd 1 (\<lambda>f. zero_fd hdr_example)
                (fd_upd 2 (\<lambda>f. f\<lparr>err := ECONNRESET hdr_example\<rparr>)
                   (fd_upd 2 (\<lambda>f. f\<lparr>peer := - 1\<rparr>) pair_example))) 1 = zero_fd hdr_example"
    "peer (fd (fd_upd 1 (\<lambda>f. zero_fd hdr_example)
                (fd_upd 2 (\<lambda>f. f\<lparr>err := ECONNRESET hdr_example\<rparr>)
                   (fd_upd 2 (\<lambda>f. f\<lparr>peer := - 1\<rparr>) pair_example))) 2) = - 1"
    "err (fd (fd_upd 1 (\<lambda>f. zero_fd hdr_example)
                (fd_upd 2 (\<lambda>f. f\<lparr>err := ECONNRESET hdr_example\<rparr>)
                   (fd_upd 2 (\<lambda>f. f\<lparr>peer := - 1\<rparr>) pair_example))) 2) = - 54"
    using n(3) sp(1) by (simp_all add: fd_fd_upd hdr_example_def)
  show ?thesis
    unfolding A B C option.case prod.case
    using B' B2 C2 by simp
qed

end
